theory Spec2Isabelle
  imports
    Main
    "HOL-Library.Word"
    "HOL-Library.Char_ord"
    "HOL-Library.List_Lexorder"
begin

unbundle bit_operations_syntax

section \<open>Values of the program\<close>

subsection \<open>Constants of \<^verbatim>\<open>main.go\<close>\<close>

definition batchSize :: int where
  "batchSize = 100000"

definition workers :: nat where
  "workers = 1"

definition lastIDFile :: string where
  "lastIDFile = ''last_id.txt''"

definition exportDir :: string where
  "exportDir = ''exports''"

text \<open>
  Go's \<^verbatim>\<open>int\<close> as it is on a 64-bit platform: 64 bits in two's complement, \<open>sint\<close> reads its
  value, and \<^verbatim>\<open>++\<close> wraps around.
\<close>

type_synonym go_int = "64 word"

subsection \<open>Errors\<close>

text \<open>
  The error values the program can meet. The first three are the parse errors of
  \<^verbatim>\<open>primitive.ObjectIDFromHex\<close> and \<^verbatim>\<open>encoding/hex\<close>; \<open>IOError\<close> stands for any
  error of the operating system or of the store's driver, which the program only logs.
\<close>

datatype error =
    ErrInvalidHex
  | InvalidByteError char
  | ErrLength
  | IOError string

subsection \<open>\<^verbatim>\<open>primitive.ObjectID\<close>: an array of twelve bytes\<close>

type_synonym byte = "8 word"

typedef ObjectID = "{bs :: byte list. length bs = 12}"
  morphisms oid_bytes ObjectID_of
  by (rule exI [of _ "replicate 12 0"]) simp

setup_lifting type_definition_ObjectID

lift_definition NilObjectID :: ObjectID is "replicate 12 0"
  by simp

definition IsZero :: "ObjectID \<Rightarrow> bool" where
  "IsZero oid \<longleftrightarrow> oid = NilObjectID"

text \<open>
  The store compares two ObjectIDs byte by byte from the left, which on arrays of the same
  length is the lexicographic order of the byte lists (bytes read unsigned).
\<close>

instantiation ObjectID :: linorder
begin

lift_definition less_eq_ObjectID :: "ObjectID \<Rightarrow> ObjectID \<Rightarrow> bool" is
  "\<lambda>a b :: byte list. a \<le> b" .

lift_definition less_ObjectID :: "ObjectID \<Rightarrow> ObjectID \<Rightarrow> bool" is
  "\<lambda>a b :: byte list. a < b" .

instance
  by standard (transfer; auto)+

end

subsection \<open>\<^verbatim>\<open>encoding/hex\<close> and \<^verbatim>\<open>ObjectID.Hex\<close>, \<^verbatim>\<open>ObjectIDFromHex\<close>\<close>

definition hextable :: string where
  "hextable = ''0123456789abcdef''"

text \<open>\<^verbatim>\<open>dst[j] = hextable[v>>4]; dst[j+1] = hextable[v&0x0f]\<close> for every byte \<open>v\<close>.\<close>

definition hex_byte :: "byte \<Rightarrow> string" where
  "hex_byte v = [hextable ! unat (drop_bit 4 v), hextable ! unat (v AND 0x0f)]"

definition hex_EncodeToString :: "byte list \<Rightarrow> string" where
  "hex_EncodeToString src = concat (map hex_byte src)"

lift_definition Hex :: "ObjectID \<Rightarrow> string" is hex_EncodeToString .

text \<open>
  \<^verbatim>\<open>fromHexChar\<close>: the digits, \<^verbatim>\<open>a\<close> to \<^verbatim>\<open>f\<close> and \<^verbatim>\<open>A\<close> to \<^verbatim>\<open>F\<close> have a value, no other
  byte has.
\<close>

definition fromHexChar :: "char \<Rightarrow> byte option" where
  "fromHexChar c =
     (let n = (of_char c :: nat) in
      if 48 \<le> n \<and> n \<le> 57 then Some (of_nat (n - 48))
      else if 97 \<le> n \<and> n \<le> 102 then Some (of_nat (n - 97 + 10))
      else if 65 \<le> n \<and> n \<le> 70 then Some (of_nat (n - 65 + 10))
      else None)"

text \<open>
  \<^verbatim>\<open>hex.Decode\<close> walks the source two bytes at a time and stops at the first byte that is
  not a hexadecimal digit; a source of odd length is an error as well.
\<close>

fun hex_Decode :: "string \<Rightarrow> error + byte list" where
  "hex_Decode [] = Inr []"
| "hex_Decode [p] =
     (case fromHexChar p of None \<Rightarrow> Inl (InvalidByteError p) | Some a \<Rightarrow> Inl ErrLength)"
| "hex_Decode (p # q # rest) =
     (case fromHexChar p of
        None \<Rightarrow> Inl (InvalidByteError p)
      | Some a \<Rightarrow>
          (case fromHexChar q of
             None \<Rightarrow> Inl (InvalidByteError q)
           | Some b \<Rightarrow>
               (case hex_Decode rest of
                  Inl e \<Rightarrow> Inl e
                | Inr bs \<Rightarrow> Inr ((push_bit 4 a OR b) # bs))))"

text \<open>
  \<^verbatim>\<open>ObjectIDFromHex\<close>: a string that is not 24 bytes long is refused before it is decoded.
\<close>

definition ObjectIDFromHex :: "string \<Rightarrow> error + ObjectID" where
  "ObjectIDFromHex s =
     (if length s \<noteq> 24 then Inl ErrInvalidHex
      else case hex_Decode s of
             Inl e \<Rightarrow> Inl e
           | Inr bs \<Rightarrow> Inr (ObjectID_of bs))"

subsection \<open>\<^verbatim>\<open>strings.TrimSpace\<close>\<close>

text \<open>
  A Go string is a sequence of bytes. \<^verbatim>\<open>strings.TrimSpace\<close> removes the leading and the
  trailing runes for which \<^verbatim>\<open>unicode.IsSpace\<close> holds; these are the code points below, given
  by their UTF-8 encodings (tab, line feed, vertical tab, form feed, carriage return, space,
  U+0085, U+00A0, U+1680, U+2000 to U+200A, U+2028, U+2029, U+202F, U+205F, U+3000). A byte
  sequence that is not valid UTF-8 decodes to U+FFFD, which is not white space.
\<close>

definition unicode_spaces :: "nat list list" where
  "unicode_spaces =
     [[0x09], [0x0A], [0x0B], [0x0C], [0x0D], [0x20],
      [0xC2, 0x85], [0xC2, 0xA0], [0xE1, 0x9A, 0x80],
      [0xE2, 0x80, 0x80], [0xE2, 0x80, 0x81], [0xE2, 0x80, 0x82], [0xE2, 0x80, 0x83],
      [0xE2, 0x80, 0x84], [0xE2, 0x80, 0x85], [0xE2, 0x80, 0x86], [0xE2, 0x80, 0x87],
      [0xE2, 0x80, 0x88], [0xE2, 0x80, 0x89], [0xE2, 0x80, 0x8A],
      [0xE2, 0x80, 0xA8], [0xE2, 0x80, 0xA9], [0xE2, 0x80, 0xAF],
      [0xE2, 0x81, 0x9F], [0xE3, 0x80, 0x80]]"

text \<open>The number of bytes of the white-space rune a string starts with (ends with), or 0.\<close>

definition leading_space :: "string \<Rightarrow> nat" where
  "leading_space s =
     (case find (\<lambda>q. take (length q) (map of_char s) = q) unicode_spaces of
        None \<Rightarrow> 0
      | Some q \<Rightarrow> length q)"

definition trailing_space :: "string \<Rightarrow> nat" where
  "trailing_space s =
     (case find (\<lambda>q. drop (length s - length q) (map of_char s) = q) unicode_spaces of
        None \<Rightarrow> 0
      | Some q \<Rightarrow> length q)"

function TrimLeft :: "string \<Rightarrow> string" where
  "TrimLeft s = (if leading_space s = 0 then s else TrimLeft (drop (leading_space s) s))"
  by pat_completeness auto
termination
proof (relation "measure length")
  show "wf (measure length)"
    by simp
next
  fix s :: string
  assume "leading_space s \<noteq> 0"
  moreover have "leading_space [] = 0"
    by (simp add: leading_space_def unicode_spaces_def)
  ultimately have "s \<noteq> []"
    by auto
  then show "(drop (leading_space s) s, s) \<in> measure length"
    using \<open>leading_space s \<noteq> 0\<close> by simp
qed

function TrimRight :: "string \<Rightarrow> string" where
  "TrimRight s =
     (if trailing_space s = 0 then s else TrimRight (take (length s - trailing_space s) s))"
  by pat_completeness auto
termination
proof (relation "measure length")
  show "wf (measure length)"
    by simp
next
  fix s :: string
  assume "trailing_space s \<noteq> 0"
  moreover have "trailing_space [] = 0"
    by (simp add: trailing_space_def unicode_spaces_def)
  ultimately have "s \<noteq> []"
    by auto
  then show "(take (length s - trailing_space s) s, s) \<in> measure length"
    using \<open>trailing_space s \<noteq> 0\<close> by simp
qed

declare TrimLeft.simps [simp del] TrimRight.simps [simp del]

definition TrimSpace :: "string \<Rightarrow> string" where
  "TrimSpace s = TrimRight (TrimLeft s)"

section \<open>The checkpoint file\<close>

text \<open>
  What the program writes to its log. The texts are those of the \<^verbatim>\<open>log.Printf\<close> calls, which
  are kept as constructors with the values they print.
\<close>

datatype log_entry =
    NoPreviousLastID
  | InvalidIDFormat
  | ResumingFromLastID string
  | ResumingExport ObjectID
  | FailedToSaveLastID error
  | FailedToWriteLastID error
  | FailedToFetch int error
  | FailedToDecode int error
  | NoMoreRecords int
  | FailedToCreateFile int error
  | FailedToWriteJSON int error
  | ExportedBatch int int nat string
  | ExportCompleted
  | TotalTimeTaken

text \<open>
  \<^verbatim>\<open>loadLastID\<close>, applied to what \<^verbatim>\<open>os.ReadFile(lastIDFile)\<close> returned. It has no error
  result: every failure ends in \<^verbatim>\<open>primitive.NilObjectID\<close>.
\<close>

definition loadLastID :: "error + string \<Rightarrow> ObjectID \<times> log_entry list" where
  "loadLastID read =
     (case read of
        Inl err \<Rightarrow> (NilObjectID, [NoPreviousLastID])
      | Inr data \<Rightarrow>
          (case ObjectIDFromHex (TrimSpace data) of
             Inl err \<Rightarrow> (NilObjectID, [InvalidIDFormat])
           | Inr lastID \<Rightarrow> (lastID, [ResumingFromLastID (Hex lastID)])))"

section \<open>The store\<close>

subsection \<open>BSON values and documents\<close>

text \<open>
  A record of the collection is decoded into a \<^verbatim>\<open>bson.M\<close>, a map from field names to values.
  Of the BSON types, those below are modelled; the store orders values of different types
  by type (null, numbers, strings, ObjectIDs, booleans, in this order) and values of the same
  type by their own order.
\<close>

datatype bson_value =
    BNull
  | BInt int
  | BString string
  | BObjectID ObjectID
  | BBool bool

type_synonym bson_M = "string \<rightharpoonup> bson_value"

fun bson_rank :: "bson_value \<Rightarrow> nat" where
  "bson_rank BNull = 0"
| "bson_rank (BInt _) = 1"
| "bson_rank (BString _) = 2"
| "bson_rank (BObjectID _) = 3"
| "bson_rank (BBool _) = 4"

fun bson_le :: "bson_value \<Rightarrow> bson_value \<Rightarrow> bool" where
  "bson_le (BInt x) (BInt y) = (x \<le> y)"
| "bson_le (BString x) (BString y) = (x \<le> y)"
| "bson_le (BObjectID x) (BObjectID y) = (x \<le> y)"
| "bson_le (BBool x) (BBool y) = (x \<le> y)"
| "bson_le a b = (bson_rank a \<le> bson_rank b)"

instantiation bson_value :: linorder
begin

definition less_eq_bson_value :: "bson_value \<Rightarrow> bson_value \<Rightarrow> bool" where
  "less_eq_bson_value a b = bson_le a b"

definition less_bson_value :: "bson_value \<Rightarrow> bson_value \<Rightarrow> bool" where
  "less_bson_value a b = (bson_le a b \<and> \<not> bson_le b a)"

instance
proof
  fix x y z :: bson_value
  show "(x < y) = (x \<le> y \<and> \<not> y \<le> x)"
    by (simp add: less_eq_bson_value_def less_bson_value_def)
  show "x \<le> x"
    by (cases x) (simp_all add: less_eq_bson_value_def)
  show "x \<le> y \<Longrightarrow> y \<le> z \<Longrightarrow> x \<le> z"
    by (cases x; cases y; cases z) (simp_all add: less_eq_bson_value_def)
  show "x \<le> y \<Longrightarrow> y \<le> x \<Longrightarrow> x = y"
    by (cases x; cases y) (auto simp: less_eq_bson_value_def)
  show "x \<le> y \<or> y \<le> x"
    by (cases x; cases y) (auto simp: less_eq_bson_value_def)
qed

end

subsection \<open>Queries\<close>

text \<open>
  The two filters the program builds: \<^verbatim>\<open>bson.M{}\<close> and
  \<^verbatim>\<open>bson.M{"_id": bson.M{"$gt": lastID}}\<close>; and the options of a \<^verbatim>\<open>Find\<close>: a limit and a sort
  document (field names with a direction).
\<close>

datatype query_filter =
    MatchAll
  | IdGt ObjectID

record find_options =
  opt_limit :: int
  opt_sort :: "(string \<times> int) list"

text \<open>
  What the store answers to a \<^verbatim>\<open>Find\<close>. \<^verbatim>\<open>$gt\<close> compares within the type of its operand
  only, so it selects the records whose \<^verbatim>\<open>_id\<close> is an ObjectID greater than the operand. A
  missing field sorts as null. A positive limit keeps that many records from the front of the
  sorted result, limit 0 keeps all, a negative limit keeps as many as its absolute value.
\<close>

fun matches :: "query_filter \<Rightarrow> bson_M \<Rightarrow> bool" where
  "matches MatchAll doc = True"
| "matches (IdGt c) doc =
     (case doc ''_id'' of Some (BObjectID k) \<Rightarrow> c < k | _ \<Rightarrow> False)"

definition field_key :: "string \<Rightarrow> bson_M \<Rightarrow> bson_value" where
  "field_key f doc = (case doc f of None \<Rightarrow> BNull | Some v \<Rightarrow> v)"

definition sort_by :: "string \<times> int \<Rightarrow> bson_M list \<Rightarrow> bson_M list" where
  "sort_by spec docs =
     (if 0 < snd spec then sort_key (field_key (fst spec)) docs
      else rev (sort_key (field_key (fst spec)) (rev docs)))"

definition limit_docs :: "int \<Rightarrow> bson_M list \<Rightarrow> bson_M list" where
  "limit_docs n docs = (if n = 0 then docs else take (nat \<bar>n\<bar>) docs)"

definition mongo_Find :: "bson_M list \<Rightarrow> query_filter \<Rightarrow> find_options \<Rightarrow> bson_M list" where
  "mongo_Find coll flt opts =
     limit_docs (opt_limit opts) (foldr sort_by (opt_sort opts) (filter (matches flt) coll))"

section \<open>The files and the log\<close>

subsection \<open>Formatting of file names\<close>

text \<open>The verb \<^verbatim>\<open>%d\<close> of \<^verbatim>\<open>fmt.Sprintf\<close>: decimal digits, with a minus sign below zero.\<close>

function digits :: "nat \<Rightarrow> string" where
  "digits n =
     (if n < 10 then [char_of (48 + n)] else digits (n div 10) @ [char_of (48 + n mod 10)])"
  by pat_completeness auto
termination
  by (relation "measure id") auto

declare digits.simps [simp del]

definition fmt_d :: "int \<Rightarrow> string" where
  "fmt_d i = (if i < 0 then CHR ''-'' # digits (nat (- i)) else digits (nat i))"

text \<open>\<^verbatim>\<open>filepath.Join\<close> of a directory and a file name without separators (Unix).\<close>

definition filepath_Join :: "string \<Rightarrow> string \<Rightarrow> string" where
  "filepath_Join dir name = dir @ ''/'' @ name"

text \<open>
  \<^verbatim>\<open>filepath.Join(exportDir, fmt.Sprintf("batch_%d_worker_%d.json", batchNum, workerID))\<close>.
  The worker's number is the index of the loop of \<^verbatim>\<open>main\<close> that starts the workers, an integer
  from 0 below \<open>workers\<close>.
\<close>

definition batch_path :: "int \<Rightarrow> go_int \<Rightarrow> string" where
  "batch_path workerID batchNum =
     filepath_Join exportDir
       (''batch_'' @ fmt_d (sint batchNum) @ ''_worker_'' @ fmt_d workerID @ ''.json'')"

subsection \<open>The state outside the program\<close>

text \<open>
  A batch file that \<^verbatim>\<open>os.Create\<close> has created (or truncated) is \<open>Incomplete\<close> until
  \<^verbatim>\<open>encoder.Encode\<close> has written the whole page to it.
\<close>

datatype file_content =
    Incomplete
  | JSON "bson_M list"

text \<open>The calls that act on the store and on the files, in the order the program makes them.\<close>

datatype effect =
    Query query_filter find_options
  | CreateFile string
  | WriteJSON string "bson_M list"
  | SaveLastID ObjectID

text \<open>
  \<open>last_id_txt\<close> is the content of \<^verbatim>\<open>last_id.txt\<close> (\<open>None\<close>: there is no such file),
  \<open>batch_files\<close> the files of the export directory, \<open>logged\<close> the log, \<open>effects\<close> the calls made so
  far.
\<close>

record world =
  last_id_txt :: "string option"
  batch_files :: "string \<rightharpoonup> file_content"
  logged :: "log_entry list"
  effects :: "effect list"

text \<open>\<^verbatim>\<open>os.ReadFile(lastIDFile)\<close> when nothing but the absence of the file makes it fail.\<close>

definition os_ReadFile :: "world \<Rightarrow> error + string" where
  "os_ReadFile w =
     (case last_id_txt w of
        None \<Rightarrow> Inl (IOError ''open last_id.txt: no such file or directory'')
      | Some data \<Rightarrow> Inr data)"

text \<open>
  \<^verbatim>\<open>saveLastID\<close>. Its first argument is the error of \<^verbatim>\<open>os.Create(lastIDFile)\<close>, if any; its
  second the error of \<^verbatim>\<open>file.WriteString\<close>, if any, with the number of bytes written before
  it. \<^verbatim>\<open>os.Create\<close> truncates the file. Both errors are logged as warnings, and the function
  returns nothing.
\<close>

definition saveLastID ::
  "error option \<Rightarrow> (nat \<times> error) option \<Rightarrow> ObjectID \<Rightarrow> world \<Rightarrow> world" where
  "saveLastID create_res write_res lastID w =
     (let w1 = w\<lparr>effects := effects w @ [SaveLastID lastID]\<rparr> in
      case create_res of
        Some err \<Rightarrow> w1\<lparr>logged := logged w1 @ [FailedToSaveLastID err]\<rparr>
      | None \<Rightarrow>
          (case write_res of
             Some (n, err) \<Rightarrow>
               w1\<lparr>last_id_txt := Some (take n (Hex lastID)),
                  logged := logged w1 @ [FailedToWriteLastID err]\<rparr>
           | None \<Rightarrow> w1\<lparr>last_id_txt := Some (Hex lastID)\<rparr>))"

section \<open>\<^verbatim>\<open>exportWorker\<close>\<close>

text \<open>
  What is outside the program during one iteration of the worker's inner loop: the records
  in the collection when \<^verbatim>\<open>Find\<close> runs, and for each call that can fail its error, if any:
  \<^verbatim>\<open>collection.Find\<close>, \<^verbatim>\<open>cursor.All\<close>, \<^verbatim>\<open>os.Create\<close> of the batch file, \<^verbatim>\<open>encoder.Encode\<close>, and
  the two calls of \<^verbatim>\<open>saveLastID\<close>.
\<close>

record iter_env =
  collection :: "bson_M list"
  find_err :: "error option"
  all_err :: "error option"
  create_err :: "error option"
  encode_err :: "error option"
  ckpt_create_err :: "error option"
  ckpt_write_err :: "(nat \<times> error) option"

text \<open>The variables of the loop.\<close>

record lane =
  lastID :: ObjectID
  batchNum :: go_int

text \<open>
  Where a lane is: \<open>Fetching\<close> at the head of the inner loop, \<open>Done\<close> after the
  \<^verbatim>\<open>break\<close>, \<open>Failed\<close> after a \<^verbatim>\<open>return\<close> on an error, \<open>Panicked\<close> when the type assertion
  on \<^verbatim>\<open>_id\<close> failed.
\<close>

datatype status =
    Fetching
  | Done
  | Failed
  | Panicked

definition find_filter :: "ObjectID \<Rightarrow> query_filter" where
  "find_filter oid = (if \<not> IsZero oid then IdGt oid else MatchAll)"

definition find_opts :: find_options where
  "find_opts = \<lparr>opt_limit = batchSize, opt_sort = [(''_id'', 1)]\<rparr>"

text \<open>
  The end of an iteration, from the type assertion on: the last record's \<^verbatim>\<open>_id\<close> becomes
  \<^verbatim>\<open>lastID\<close>, is saved, the progress is logged and \<^verbatim>\<open>batchNum\<close> is incremented.
\<close>

definition advance ::
  "int \<Rightarrow> iter_env \<Rightarrow> lane \<Rightarrow> bson_M list \<Rightarrow> string \<Rightarrow> world \<Rightarrow> status \<times> lane \<times> world" where
  "advance workerID env l results filePath w =
     (case last results ''_id'' of
        Some (BObjectID oid) \<Rightarrow>
          (let w1 = saveLastID (ckpt_create_err env) (ckpt_write_err env) oid w;
               w2 = w1\<lparr>logged := logged w1 @
                      [ExportedBatch workerID (sint (batchNum l)) (length results) filePath]\<rparr>
           in (Fetching, \<lparr>lastID = oid, batchNum = batchNum l + 1\<rparr>, w2))
      | _ \<Rightarrow> (Panicked, l, w))"

text \<open>The middle of an iteration: the page is written to its batch file.\<close>

definition write_batch ::
  "int \<Rightarrow> iter_env \<Rightarrow> lane \<Rightarrow> bson_M list \<Rightarrow> world \<Rightarrow> status \<times> lane \<times> world" where
  "write_batch workerID env l results w =
     (let filePath = batch_path workerID (batchNum l) in
      case create_err env of
        Some err \<Rightarrow> (Failed, l, w\<lparr>logged := logged w @ [FailedToCreateFile workerID err]\<rparr>)
      | None \<Rightarrow>
          (let w1 = w\<lparr>batch_files := (batch_files w)(filePath \<mapsto> Incomplete),
                      effects := effects w @ [CreateFile filePath]\<rparr>
           in case encode_err env of
                Some err \<Rightarrow>
                  (Failed, l, w1\<lparr>logged := logged w1 @ [FailedToWriteJSON workerID err]\<rparr>)
              | None \<Rightarrow>
                  advance workerID env l results filePath
                    (w1\<lparr>batch_files := (batch_files w1)(filePath \<mapsto> JSON results),
                        effects := effects w1 @ [WriteJSON filePath results]\<rparr>)))"

text \<open>One iteration of the inner \<^verbatim>\<open>for\<close> loop.\<close>

definition exportWorker_iter ::
  "int \<Rightarrow> iter_env \<Rightarrow> lane \<Rightarrow> world \<Rightarrow> status \<times> lane \<times> world" where
  "exportWorker_iter workerID env l w =
     (let w1 = w\<lparr>effects := effects w @ [Query (find_filter (lastID l)) find_opts]\<rparr> in
      case find_err env of
        Some err \<Rightarrow> (Failed, l, w1\<lparr>logged := logged w1 @ [FailedToFetch workerID err]\<rparr>)
      | None \<Rightarrow>
          (case all_err env of
             Some err \<Rightarrow> (Failed, l, w1\<lparr>logged := logged w1 @ [FailedToDecode workerID err]\<rparr>)
           | None \<Rightarrow>
               (let results = mongo_Find (collection env) (find_filter (lastID l)) find_opts in
                if length results = 0
                then (Done, l, w1\<lparr>logged := logged w1 @ [NoMoreRecords workerID]\<rparr>)
                else write_batch workerID env l results w1)))"

text \<open>
  The inner loop, run against the iterations the list describes. When the list is used up
  the lane is still \<open>Fetching\<close>.
\<close>

fun exportWorker_loop ::
  "int \<Rightarrow> iter_env list \<Rightarrow> lane \<Rightarrow> world \<Rightarrow> status \<times> lane \<times> world" where
  "exportWorker_loop workerID [] l w = (Fetching, l, w)"
| "exportWorker_loop workerID (env # envs) l w =
     (case exportWorker_iter workerID env l w of
        (Fetching, l', w') \<Rightarrow> exportWorker_loop workerID envs l' w'
      | (st, l', w') \<Rightarrow> (st, l', w'))"

text \<open>The body of \<^verbatim>\<open>for lastID := range workChan\<close> for one received value.\<close>

definition exportWorker_item ::
  "int \<Rightarrow> iter_env list \<Rightarrow> ObjectID \<Rightarrow> world \<Rightarrow> status \<times> lane \<times> world" where
  "exportWorker_item workerID envs received w =
     exportWorker_loop workerID envs \<lparr>lastID = received, batchNum = 1\<rparr> w"

section \<open>\<^verbatim>\<open>main\<close> and its goroutines\<close>

text \<open>
  The part of \<^verbatim>\<open>main\<close> from \<^verbatim>\<open>loadLastID\<close> on (the connection and the export directory are
  there). Three kinds of goroutine run: \<^verbatim>\<open>main\<close> itself, the anonymous function that closes
  the channel, and the workers. Each is at one of the points below; a step of a goroutine
  takes it to its next point, or leaves everything as it is when the goroutine is blocked.

  \<^verbatim>\<open>main\<close>: sending \<^verbatim>\<open>lastID\<close> on \<^verbatim>\<open>workChan\<close>; starting the closing goroutine; in \<^verbatim>\<open>wg.Wait()\<close>;
  logging the completion; returned.
\<close>

datatype main_pc =
    MainSend
  | MainGoCloser
  | MainWait
  | MainReport
  | MainReturned

text \<open>The closing goroutine: not started; in \<^verbatim>\<open>wg.Wait()\<close>; at \<^verbatim>\<open>close(workChan)\<close>; returned.\<close>

datatype closer_pc =
    CloserNotStarted
  | CloserWait
  | CloserClose
  | CloserReturned

text \<open>
  A worker: receiving at \<^verbatim>\<open>for lastID := range workChan\<close>; at the head of the inner loop
  with its variables; returned (its deferred \<^verbatim>\<open>wg.Done()\<close> has run).
\<close>

datatype worker_pc =
    WorkerReceive
  | WorkerLoop lane
  | WorkerReturned

datatype goroutine =
    Main
  | Closer
  | Worker nat

text \<open>
  \<open>wg\<close> is the counter of the \<^verbatim>\<open>WaitGroup\<close>, \<open>workChan\<close> the values buffered in the channel (its
  capacity is \<open>workers\<close>), \<open>pending\<close> what is outside the program during the coming iterations
  of the inner loop, \<open>os\<close> the files and the log, \<open>exit_status\<close> the exit status once the
  process has ended.
\<close>

record process =
  wg :: int
  workChan :: "ObjectID list"
  chan_closed :: bool
  main_at :: main_pc
  closer_at :: closer_pc
  workers_at :: "worker_pc list"
  main_lastID :: ObjectID
  pending :: "iter_env list"
  os :: world
  exit_status :: "int option"

text \<open>
  The state after \<^verbatim>\<open>main\<close> has loaded the checkpoint, logged it, added every worker to the
  \<^verbatim>\<open>WaitGroup\<close> and started it.
\<close>

definition start :: "error + string \<Rightarrow> iter_env list \<Rightarrow> world \<Rightarrow> process" where
  "start read envs w =
     \<lparr>wg = int workers, workChan = [], chan_closed = False,
      main_at = MainSend, closer_at = CloserNotStarted,
      workers_at = replicate workers WorkerReceive,
      main_lastID = fst (loadLastID read), pending = envs,
      os = w\<lparr>logged := logged w @ snd (loadLastID read) @
             [ResumingExport (fst (loadLastID read))]\<rparr>,
      exit_status = None\<rparr>"

text \<open>\<^verbatim>\<open>wg.Done()\<close>: a counter below zero is a panic.\<close>

definition wg_Done :: "process \<Rightarrow> process" where
  "wg_Done p = (if wg p - 1 < 0 then p\<lparr>exit_status := Some 2\<rparr> else p\<lparr>wg := wg p - 1\<rparr>)"

definition step_main :: "process \<Rightarrow> process" where
  "step_main p =
     (case main_at p of
        MainSend \<Rightarrow>
          if length (workChan p) < workers
          then p\<lparr>workChan := workChan p @ [main_lastID p], main_at := MainGoCloser\<rparr>
          else p
      | MainGoCloser \<Rightarrow> p\<lparr>closer_at := CloserWait, main_at := MainWait\<rparr>
      | MainWait \<Rightarrow> if wg p = 0 then p\<lparr>main_at := MainReport\<rparr> else p
      | MainReport \<Rightarrow>
          p\<lparr>os := (os p)\<lparr>logged := logged (os p) @ [ExportCompleted, TotalTimeTaken]\<rparr>,
            main_at := MainReturned, exit_status := Some 0\<rparr>
      | MainReturned \<Rightarrow> p)"

definition step_closer :: "process \<Rightarrow> process" where
  "step_closer p =
     (case closer_at p of
        CloserNotStarted \<Rightarrow> p
      | CloserWait \<Rightarrow> if wg p = 0 then p\<lparr>closer_at := CloserClose\<rparr> else p
      | CloserClose \<Rightarrow> p\<lparr>chan_closed := True, closer_at := CloserReturned\<rparr>
      | CloserReturned \<Rightarrow> p)"

text \<open>
  A worker that receives a value enters the inner loop with \<^verbatim>\<open>batchNum := 1\<close>; on a closed
  and empty channel the \<^verbatim>\<open>range\<close> loop ends and the worker returns. In the inner loop a step
  is one iteration: after \<^verbatim>\<open>break\<close> the worker receives again, after \<^verbatim>\<open>return\<close> the deferred
  \<^verbatim>\<open>wg.Done()\<close> runs, and a panic runs it as well and then ends the process with status 2.
\<close>

definition step_worker :: "nat \<Rightarrow> process \<Rightarrow> process" where
  "step_worker i p =
     (if length (workers_at p) \<le> i then p
      else case workers_at p ! i of
        WorkerReceive \<Rightarrow>
          (case workChan p of
             v # rest \<Rightarrow>
               p\<lparr>workChan := rest,
                 workers_at := (workers_at p)[i := WorkerLoop \<lparr>lastID = v, batchNum = 1\<rparr>]\<rparr>
           | [] \<Rightarrow>
               if chan_closed p
               then wg_Done (p\<lparr>workers_at := (workers_at p)[i := WorkerReturned]\<rparr>)
               else p)
      | WorkerLoop l \<Rightarrow>
          (case pending p of
             [] \<Rightarrow> p
           | env # envs \<Rightarrow>
               (case exportWorker_iter (int i) env l (os p) of
                  (Fetching, l', w') \<Rightarrow>
                    p\<lparr>os := w', pending := envs,
                      workers_at := (workers_at p)[i := WorkerLoop l']\<rparr>
                | (Done, l', w') \<Rightarrow>
                    p\<lparr>os := w', pending := envs,
                      workers_at := (workers_at p)[i := WorkerReceive]\<rparr>
                | (Failed, l', w') \<Rightarrow>
                    wg_Done (p\<lparr>os := w', pending := envs,
                      workers_at := (workers_at p)[i := WorkerReturned]\<rparr>)
                | (Panicked, l', w') \<Rightarrow>
                    (wg_Done (p\<lparr>os := w', pending := envs,
                      workers_at := (workers_at p)[i := WorkerReturned]\<rparr>))
                    \<lparr>exit_status := Some 2\<rparr>))
      | WorkerReturned \<Rightarrow> p)"

text \<open>When the process has ended, no goroutine moves.\<close>

definition step :: "goroutine \<Rightarrow> process \<Rightarrow> process" where
  "step g p =
     (if exit_status p \<noteq> None then p
      else case g of
        Main \<Rightarrow> step_main p
      | Closer \<Rightarrow> step_closer p
      | Worker i \<Rightarrow> step_worker i p)"

text \<open>The process under a schedule: the goroutines move in the order of the list.\<close>

fun run :: "goroutine list \<Rightarrow> process \<Rightarrow> process" where
  "run [] p = p"
| "run (g # gs) p = run gs (step g p)"

section \<open>Where a run stands\<close>

text \<open>
  What the lane of the one value sent on the channel will have done when the iterations
  described in \<open>pending\<close> are used up, seen from a state in which it has not returned.
\<close>

definition lane_ahead :: "process \<Rightarrow> status" where
  "lane_ahead p =
     (case workers_at p of
        [WorkerLoop l] \<Rightarrow> fst (exportWorker_loop 0 (pending p) l (os p))
      | [WorkerReceive] \<Rightarrow>
          (case workChan p of
             v # rest \<Rightarrow> fst (exportWorker_item 0 (pending p) v (os p))
           | [] \<Rightarrow>
               if main_at p = MainSend
               then fst (exportWorker_item 0 (pending p) (main_lastID p) (os p))
               else Done)
      | _ \<Rightarrow> Failed)"

text \<open>
  The states in which the worker has not returned: the counter of the \<^verbatim>\<open>WaitGroup\<close> is 1, the
  channel is open, \<^verbatim>\<open>main\<close> has not got past \<^verbatim>\<open>wg.Wait()\<close> and the closing goroutine, if
  started, has not either.
\<close>

definition lane_running :: "process \<Rightarrow> bool" where
  "lane_running p \<longleftrightarrow>
     exit_status p = None \<and> wg p = 1 \<and> \<not> chan_closed p \<and>
     (main_at p = MainSend \<or> main_at p = MainGoCloser \<or> main_at p = MainWait) \<and>
     (closer_at p = CloserNotStarted \<or> closer_at p = CloserWait) \<and>
     ((workers_at p = [WorkerReceive] \<and> workChan p = []) \<or>
      (workers_at p = [WorkerReceive] \<and> main_at p \<noteq> MainSend \<and>
         (\<exists>v. workChan p = [v])) \<or>
      (main_at p \<noteq> MainSend \<and> workChan p = [] \<and> (\<exists>l. workers_at p = [WorkerLoop l])))"

text \<open>
  The states after the worker has returned on an error: the counter is 0, and \<^verbatim>\<open>main\<close> either
  has not yet logged the completion or has logged it and ended the process with status 0.
\<close>

definition lane_returned :: "process \<Rightarrow> bool" where
  "lane_returned p \<longleftrightarrow>
     workers_at p = [WorkerReturned] \<and> wg p = 0 \<and> workChan p = [] \<and>
     ((exit_status p = None \<and>
         (main_at p = MainGoCloser \<or> main_at p = MainWait \<or> main_at p = MainReport)) \<or>
      (exit_status p = Some 0 \<and> main_at p = MainReturned \<and>
         ExportCompleted \<in> set (logged (os p))))"

section \<open>Reading the sequence of calls\<close>

text \<open>
  The calls of an iteration that ran to its end: the query, the creation of the batch file,
  the encoding of the page into that file, and the call of \<^verbatim>\<open>saveLastID\<close> with the \<^verbatim>\<open>_id\<close> of
  the page's last record.
\<close>

definition completed_block :: "effect list \<Rightarrow> bool" where
  "completed_block b \<longleftrightarrow>
     (\<exists>flt opts p page k.
        b = [Query flt opts, CreateFile p, WriteJSON p page, SaveLastID k] \<and>
        page \<noteq> [] \<and> last page ''_id'' = Some (BObjectID k))"

text \<open>The paths of the files created, and of the files a page was encoded into.\<close>

fun created_paths :: "effect list \<Rightarrow> string list" where
  "created_paths [] = []"
| "created_paths (CreateFile p # es) = p # created_paths es"
| "created_paths (e # es) = created_paths es"

fun written_paths :: "effect list \<Rightarrow> string list" where
  "written_paths [] = []"
| "written_paths (WriteJSON p page # es) = p # written_paths es"
| "written_paths (e # es) = written_paths es"

fun saved_ids :: "effect list \<Rightarrow> ObjectID list" where
  "saved_ids [] = []"
| "saved_ids (SaveLastID k # es) = k # saved_ids es"
| "saved_ids (e # es) = saved_ids es"

section \<open>Sample values\<close>

text \<open>Concrete values on which the theorems below are instantiated.\<close>

definition oid_1 :: ObjectID where
  "oid_1 = ObjectID_of [0, 0, 0, 0, 0, 0, 0, 0, 0, 0, 0, 1]"

definition oid_2 :: ObjectID where
  "oid_2 = ObjectID_of [0, 0, 0, 0, 0, 0, 0, 0, 0, 0, 0, 2]"

definition doc_1 :: bson_M where
  "doc_1 = [''_id'' \<mapsto> BObjectID oid_1]"

definition doc_2 :: bson_M where
  "doc_2 = [''_id'' \<mapsto> BObjectID oid_2]"

definition doc_text :: bson_M where
  "doc_text = [''_id'' \<mapsto> BString ''abc'']"

text \<open>An iteration in which no call fails, and the state before the first run.\<close>

definition quiet :: "bson_M list \<Rightarrow> iter_env" where
  "quiet coll =
     \<lparr>collection = coll, find_err = None, all_err = None, create_err = None,
      encode_err = None, ckpt_create_err = None, ckpt_write_err = None\<rparr>"

definition fresh_world :: world where
  "fresh_world = \<lparr>last_id_txt = None, batch_files = Map.empty, logged = [], effects = []\<rparr>"

text \<open>An iteration in which only \<^verbatim>\<open>encoder.Encode\<close> fails.\<close>

definition encode_fails :: "bson_M list \<Rightarrow> iter_env" where
  "encode_fails coll = (quiet coll)\<lparr>encode_err := Some (IOError ''no space left on device'')\<rparr>"

text \<open>An iteration in which only \<^verbatim>\<open>os.Create\<close> of the checkpoint file fails.\<close>

definition ckpt_fails :: "bson_M list \<Rightarrow> iter_env" where
  "ckpt_fails coll = (quiet coll)\<lparr>ckpt_create_err := Some (IOError ''permission denied'')\<rparr>"


section \<open>Hexadecimal form of an ObjectID\<close>

lemma hextable_inverse: "\<forall>n \<in> set [0..<16]. fromHexChar (hextable ! n) = Some (of_nat n)"
  by (simp add: upt_rec fromHexChar_def hextable_def)

lemma fromHexChar_hextable: "n < 16 \<Longrightarrow> fromHexChar (hextable ! n) = Some (of_nat n)"
  using hextable_inverse by simp

lemma and_15: "(v :: byte) AND 0x0f = take_bit 4 v"
  by (simp add: take_bit_eq_mask mask_eq_exp_minus_1)

lemma byte_nibbles: "push_bit 4 (drop_bit 4 v) OR (v AND 0x0f) = (v :: byte)"
  unfolding and_15
  by (rule bit_word_eqI) (auto simp: bit_simps)

lemma unat_high_nibble: "unat (drop_bit 4 (v :: byte)) < 16"
proof -
  have "unat v < 256"
    using unsigned_less [of v, where 'a = nat] by simp
  then have "unat v div 16 < 16"
    by simp
  then show ?thesis
    by (simp add: drop_bit_eq_div unat_div)
qed

lemma unat_low_nibble: "unat ((v :: byte) AND 0x0f) < 16"
  unfolding and_15
  by (simp add: unsigned_take_bit_eq take_bit_nat_eq_self_iff
      take_bit_nat_less_exp [of 4, simplified])

lemma hex_Decode_hex_byte:
  "hex_Decode (hex_byte v @ rest) =
     (case hex_Decode rest of Inl e \<Rightarrow> Inl e | Inr bs \<Rightarrow> Inr (v # bs))"
  by (simp add: hex_byte_def fromHexChar_hextable unat_high_nibble unat_low_nibble byte_nibbles
      split: sum.split)

lemma hex_Decode_EncodeToString: "hex_Decode (hex_EncodeToString bs) = Inr bs"
  by (induction bs) (simp_all add: hex_EncodeToString_def hex_Decode_hex_byte)

lemma length_EncodeToString: "length (hex_EncodeToString bs) = 2 * length bs"
  by (induction bs) (simp_all add: hex_EncodeToString_def hex_byte_def)

lemma length_Hex: "length (Hex c) = 24"
  using oid_bytes [of c] by (simp add: Hex.rep_eq length_EncodeToString)

lemma ObjectIDFromHex_Hex: "ObjectIDFromHex (Hex c) = Inr c"
  using oid_bytes [of c]
  by (simp add: ObjectIDFromHex_def Hex.rep_eq length_EncodeToString hex_Decode_EncodeToString
      oid_bytes_inverse)

lemma hex_Decode_Inr:
  "hex_Decode s = Inr bs \<Longrightarrow> (\<forall>c \<in> set s. fromHexChar c \<noteq> None) \<and> length s = 2 * length bs"
  by (induction s arbitrary: bs rule: hex_Decode.induct)
    (auto split: option.splits sum.splits)

lemma ObjectIDFromHex_Inr:
  "ObjectIDFromHex s = Inr k \<Longrightarrow> length s = 24 \<and> (\<forall>c \<in> set s. fromHexChar c \<noteq> None)"
  by (auto simp: ObjectIDFromHex_def split: if_splits sum.splits dest: hex_Decode_Inr)

lemma hex_byte_chars: "set (hex_byte v) \<subseteq> set hextable"
proof -
  have "length hextable = 16"
    by (simp add: hextable_def)
  then show ?thesis
    using unat_high_nibble [of v] unat_low_nibble [of v] by (simp add: hex_byte_def)
qed

lemma EncodeToString_chars: "set (hex_EncodeToString bs) \<subseteq> set hextable"
  using hex_byte_chars by (auto simp: hex_EncodeToString_def)

lemma Hex_oid_1: "Hex oid_1 = ''000000000000000000000001''"
  by (simp add: oid_1_def Hex.rep_eq ObjectID_of_inverse hex_EncodeToString_def hex_byte_def
      hextable_def)

lemma oid_1_not_nil: "oid_1 \<noteq> NilObjectID"
  by (simp add: oid_1_def NilObjectID_def ObjectID_of_inject eval_nat_numeral)

section \<open>White space around a hexadecimal string\<close>

lemma take_prefix_hd: "take (length q) xs = q \<Longrightarrow> q \<noteq> [] \<Longrightarrow> hd q = hd xs"
  by (metis hd_take length_greater_0_conv)

lemma drop_suffix_last: "drop (length xs - length q) xs = q \<Longrightarrow> q \<noteq> [] \<Longrightarrow> last q = last xs"
  by (metis last_drop drop_eq_Nil not_le)

lemma unicode_spaces_hd:
  "\<forall>q \<in> set unicode_spaces. q \<noteq> [] \<and> hd q \<in> {9, 10, 11, 12, 13, 32, 194, 225, 226, 227}"
  by (simp add: unicode_spaces_def)

lemma unicode_spaces_last:
  "\<forall>q \<in> set unicode_spaces. q \<noteq> [] \<and> (last q \<in> {9, 10, 11, 12, 13, 32} \<or> 128 \<le> last q)"
  by (simp add: unicode_spaces_def)

lemma hextable_codes:
  "\<forall>c \<in> set hextable. 48 \<le> (of_char c :: nat) \<and> (of_char c :: nat) \<le> 102"
  by (simp add: hextable_def)

lemma leading_space_hex:
  assumes "s \<noteq> []" and "hd s \<in> set hextable"
  shows "leading_space s = 0"
proof -
  have "\<not> (\<exists>q \<in> set unicode_spaces. take (length q) (map of_char s) = q)"
  proof
    assume "\<exists>q \<in> set unicode_spaces. take (length q) (map of_char s) = q"
    then obtain q where q: "q \<in> set unicode_spaces"
      and t: "take (length q) (map of_char s) = q"
      by blast
    from q unicode_spaces_hd
    have q': "q \<noteq> []" "hd q \<in> {9, 10, 11, 12, 13, 32, 194, 225, 226, 227}"
      by blast+
    from take_prefix_hd [OF t q'(1)] assms(1) have "hd q = of_char (hd s)"
      by (simp add: hd_map)
    with q'(2) hextable_codes assms(2) show False
      by fastforce
  qed
  then have "find (\<lambda>q. take (length q) (map of_char s) = q) unicode_spaces = None"
    by (simp only: find_None_iff) blast
  then show ?thesis
    by (simp only: leading_space_def option.case)
qed

lemma trailing_space_hex:
  assumes "s \<noteq> []" and "last s \<in> set hextable"
  shows "trailing_space s = 0"
proof -
  have "\<not> (\<exists>q \<in> set unicode_spaces. drop (length s - length q) (map of_char s) = q)"
  proof
    assume "\<exists>q \<in> set unicode_spaces. drop (length s - length q) (map of_char s) = q"
    then obtain q where q: "q \<in> set unicode_spaces"
      and t: "drop (length s - length q) (map of_char s) = q"
      by blast
    from q unicode_spaces_last
    have q': "q \<noteq> []" "last q \<in> {9, 10, 11, 12, 13, 32} \<or> 128 \<le> last q"
      by blast+
    from t have "drop (length (map of_char s :: nat list) - length q) (map of_char s) = q"
      by simp
    from drop_suffix_last [OF this q'(1)] assms(1) have "last q = of_char (last s)"
      by (simp add: last_map)
    with q'(2) hextable_codes assms(2) show False
      by fastforce
  qed
  then have "find (\<lambda>q. drop (length s - length q) (map of_char s) = q) unicode_spaces = None"
    by (simp only: find_None_iff) blast
  then show ?thesis
    by (simp only: trailing_space_def option.case)
qed

lemma TrimSpace_hex:
  assumes "s \<noteq> []" and "hd s \<in> set hextable" and "last s \<in> set hextable"
  shows "TrimSpace s = s"
  using assms
  by (simp add: TrimSpace_def TrimLeft.simps [of s] TrimRight.simps [of s]
      leading_space_hex trailing_space_hex)

lemma TrimSpace_Hex: "TrimSpace (Hex c) = Hex c"
proof -
  have ne: "Hex c \<noteq> []"
    using length_Hex [of c] by auto
  have "set (Hex c) \<subseteq> set hextable"
    by (simp add: Hex.rep_eq EncodeToString_chars)
  with ne have "hd (Hex c) \<in> set hextable" "last (Hex c) \<in> set hextable"
    by (auto dest: hd_in_set last_in_set)
  with ne show ?thesis
    by (rule TrimSpace_hex)
qed

lemma TrimSpace_stored_line:
  "TrimSpace ''000000000000000000000001\<newline>'' = ''000000000000000000000001''"
  by (simp add: TrimSpace_def TrimLeft.simps TrimRight.simps leading_space_def
      trailing_space_def unicode_spaces_def)

lemma TrimSpace_not_an_id: "TrimSpace ''not an id'' = ''not an id''"
  by (simp add: TrimSpace_def TrimLeft.simps TrimRight.simps leading_space_def
      trailing_space_def unicode_spaces_def)

section \<open>The checkpoint store\<close>

text \<open>
  C6. \<^verbatim>\<open>loadLastID\<close> has no failing branch. When the file cannot be read, and when its
  trimmed content is not accepted by \<^verbatim>\<open>ObjectIDFromHex\<close>, the result is the nil ObjectID; when
  the content is accepted, the result is the ObjectID it denotes. A result other than the nil
  ObjectID is returned only for a readable file whose trimmed content is 24 hexadecimal
  digits.
\<close>

theorem loadLastID_never_fails:
  "(read = Inl err \<longrightarrow> fst (loadLastID read) = NilObjectID) \<and>
   (read = Inr data \<and> ObjectIDFromHex (TrimSpace data) = Inl err \<longrightarrow>
      fst (loadLastID read) = NilObjectID) \<and>
   (read = Inr data \<and> ObjectIDFromHex (TrimSpace data) = Inr k \<longrightarrow>
      fst (loadLastID read) = k) \<and>
   (fst (loadLastID read) \<noteq> NilObjectID \<longrightarrow>
      (\<exists>stored. read = Inr stored \<and> length (TrimSpace stored) = 24 \<and>
         (\<forall>c \<in> set (TrimSpace stored). fromHexChar c \<noteq> None) \<and>
         ObjectIDFromHex (TrimSpace stored) = Inr (fst (loadLastID read))))"
  by (cases read) (auto simp: loadLastID_def split: sum.splits dest: ObjectIDFromHex_Inr)

theorem loadLastID_never_fails_witness:
  "fst (loadLastID (Inl (IOError ''no such file''))) = NilObjectID \<and>
   ObjectIDFromHex (TrimSpace ''not an id'') = Inl ErrInvalidHex \<and>
   fst (loadLastID (Inr ''not an id'')) = NilObjectID \<and>
   ObjectIDFromHex (TrimSpace ''000000000000000000000001\<newline>'') = Inr oid_1 \<and>
   fst (loadLastID (Inr ''000000000000000000000001\<newline>'')) = oid_1 \<and>
   oid_1 \<noteq> NilObjectID \<and>
   length (TrimSpace ''000000000000000000000001\<newline>'') = 24"
proof -
  have a: "ObjectIDFromHex (TrimSpace ''not an id'') = Inl ErrInvalidHex"
    by (simp add: TrimSpace_not_an_id ObjectIDFromHex_def)
  have b: "ObjectIDFromHex (TrimSpace ''000000000000000000000001\<newline>'') = Inr oid_1"
    using ObjectIDFromHex_Hex [of oid_1] by (simp add: TrimSpace_stored_line Hex_oid_1)
  show ?thesis
    using a b oid_1_not_nil
      loadLastID_never_fails [of "Inl (IOError ''no such file'')" "IOError ''no such file''"]
      loadLastID_never_fails [of "Inr ''not an id''" ErrInvalidHex "''not an id''"]
      loadLastID_never_fails [of "Inr ''000000000000000000000001\<newline>''" _
        "''000000000000000000000001\<newline>''" oid_1]
    by (simp add: TrimSpace_stored_line)
qed

text \<open>
  C7. When both calls of \<^verbatim>\<open>saveLastID\<close> succeed, the file holds the hexadecimal form of the
  ObjectID and nothing else, and \<^verbatim>\<open>loadLastID\<close> on that file returns the same ObjectID.
\<close>

theorem save_load_roundtrip:
  "last_id_txt (saveLastID None None c w) = Some (Hex c) \<and>
   fst (loadLastID (os_ReadFile (saveLastID None None c w))) = c"
  by (simp add: saveLastID_def os_ReadFile_def loadLastID_def TrimSpace_Hex ObjectIDFromHex_Hex)

section \<open>The page fetcher\<close>

lemma mongo_Find_find_opts:
  "mongo_Find coll flt find_opts =
     take 100000 (sort_key (field_key ''_id'') (filter (matches flt) coll))"
  by (simp add: mongo_Find_def find_opts_def limit_docs_def sort_by_def batchSize_def)

lemma mongo_Find_subset: "set (mongo_Find coll flt find_opts) \<subseteq> {doc \<in> set coll. matches flt doc}"
  using set_take_subset [of 100000 "sort_key (field_key ''_id'') (filter (matches flt) coll)"]
  by (auto simp: mongo_Find_find_opts)

lemma mongo_Find_sorted: "sorted (map (field_key ''_id'') (mongo_Find coll flt find_opts))"
  by (simp add: mongo_Find_find_opts take_map [symmetric] sorted_wrt_take del: take_map)

lemma mongo_Find_length: "length (mongo_Find coll flt find_opts) \<le> 100000"
  by (simp add: mongo_Find_find_opts)

lemma matches_IdGt: "matches (IdGt c) doc \<Longrightarrow> \<exists>k. doc ''_id'' = Some (BObjectID k) \<and> c < k"
  by (auto split: option.splits bson_value.splits)

lemma sorted_le_last: "sorted xs \<Longrightarrow> x \<in> set xs \<Longrightarrow> x \<le> last xs"
  by (induction xs) auto

lemma sorted_last_Max: "sorted xs \<Longrightarrow> xs \<noteq> [] \<Longrightarrow> last xs = Max (set xs)"
  by (rule Max_eqI [symmetric]) (auto intro: sorted_le_last)

lemma iter_effects:
  "\<exists>rest. effects (snd (snd (exportWorker_iter workerID env l w))) =
     effects w @ Query (find_filter (lastID l)) find_opts # rest"
  by (auto simp: exportWorker_iter_def write_batch_def advance_def saveLastID_def Let_def
      split: option.splits bson_value.splits)

text \<open>
  C1. Every iteration issues one query, with the limit 100000 and the sort document
  \<^verbatim>\<open>{_id: 1}\<close>. For a cursor other than the nil ObjectID the filter is \<^verbatim>\<open>_id > cursor\<close> and
  every record of the page has an ObjectID greater than the cursor. For the nil ObjectID the
  filter is empty and the page is the front of the whole collection in ascending order. The
  page is sorted by \<^verbatim>\<open>_id\<close> and has at most 100000 records.
\<close>

theorem fetch_strictly_after_cursor:
  "(\<exists>rest. effects (snd (snd (exportWorker_iter workerID env l w))) =
      effects w @ Query (find_filter (lastID l)) find_opts # rest) \<and>
   opt_limit find_opts = 100000 \<and> opt_sort find_opts = [(''_id'', 1)] \<and>
   (\<not> IsZero (lastID l) \<longrightarrow>
      find_filter (lastID l) = IdGt (lastID l) \<and>
      (\<forall>doc \<in> set (mongo_Find (collection env) (find_filter (lastID l)) find_opts).
         \<exists>k. doc ''_id'' = Some (BObjectID k) \<and> lastID l < k)) \<and>
   (IsZero (lastID l) \<longrightarrow>
      find_filter (lastID l) = MatchAll \<and>
      mongo_Find (collection env) (find_filter (lastID l)) find_opts =
        take 100000 (sort_key (field_key ''_id'') (collection env))) \<and>
   sorted (map (field_key ''_id'')
     (mongo_Find (collection env) (find_filter (lastID l)) find_opts)) \<and>
   length (mongo_Find (collection env) (find_filter (lastID l)) find_opts) \<le> 100000"
proof -
  have gt: "\<forall>doc \<in> set (mongo_Find (collection env) (IdGt (lastID l)) find_opts).
      \<exists>k. doc ''_id'' = Some (BObjectID k) \<and> lastID l < k"
    using mongo_Find_subset [of "collection env" "IdGt (lastID l)"] matches_IdGt by blast
  have all: "mongo_Find (collection env) MatchAll find_opts =
      take 100000 (sort_key (field_key ''_id'') (collection env))"
    by (simp add: mongo_Find_find_opts)
  show ?thesis
    using gt all iter_effects [of workerID env l w] mongo_Find_sorted mongo_Find_length
    by (simp add: find_filter_def find_opts_def batchSize_def)
qed


lemma oid_1_less_2: "oid_1 < oid_2"
  by (simp add: less_ObjectID.rep_eq oid_1_def oid_2_def ObjectID_of_inverse)

lemma field_key_samples:
  "field_key ''_id'' doc_1 = BObjectID oid_1" "field_key ''_id'' doc_2 = BObjectID oid_2"
  "field_key ''_id'' doc_text = BString ''abc''"
  by (simp_all add: field_key_def doc_1_def doc_2_def doc_text_def)

lemma find_after_oid_1: "mongo_Find [doc_2, doc_1] (IdGt oid_1) find_opts = [doc_2]"
  using oid_1_less_2 by (simp add: mongo_Find_find_opts doc_1_def doc_2_def)

lemma oid_2_not_le_1: "\<not> oid_2 \<le> oid_1"
  using oid_1_less_2 by (simp add: not_le)

lemma find_from_start: "mongo_Find [doc_2, doc_1] MatchAll find_opts = [doc_1, doc_2]"
  by (simp add: mongo_Find_find_opts field_key_samples less_eq_bson_value_def oid_2_not_le_1)

theorem fetch_strictly_after_cursor_witness:
  "\<not> IsZero oid_1 \<and> find_filter oid_1 = IdGt oid_1 \<and>
   mongo_Find [doc_2, doc_1] (find_filter oid_1) find_opts = [doc_2] \<and>
   doc_2 ''_id'' = Some (BObjectID oid_2) \<and> oid_1 < oid_2 \<and>
   IsZero NilObjectID \<and> find_filter NilObjectID = MatchAll \<and>
   mongo_Find [doc_2, doc_1] (find_filter NilObjectID) find_opts = [doc_1, doc_2] \<and>
   sorted (map (field_key ''_id'') (mongo_Find [doc_2, doc_1] (find_filter oid_1) find_opts)) \<and>
   length (mongo_Find [doc_2, doc_1] (find_filter oid_1) find_opts) \<le> 100000"
  using fetch_strictly_after_cursor
      [of 0 "quiet [doc_2, doc_1]" "\<lparr>lastID = oid_1, batchNum = 1\<rparr>" fresh_world]
    fetch_strictly_after_cursor
      [of 0 "quiet [doc_2, doc_1]" "\<lparr>lastID = NilObjectID, batchNum = 1\<rparr>" fresh_world]
    oid_1_not_nil oid_1_less_2 find_after_oid_1 find_from_start
  by (simp add: IsZero_def find_filter_def quiet_def doc_2_def)

section \<open>One iteration of the worker\<close>

lemma advance_Fetching:
  "advance workerID env l results filePath w = (Fetching, l', w') \<Longrightarrow>
     last results ''_id'' = Some (BObjectID (lastID l')) \<and> batchNum l' = batchNum l + 1 \<and>
     w' = (saveLastID (ckpt_create_err env) (ckpt_write_err env) (lastID l') w)
           \<lparr>logged := logged (saveLastID (ckpt_create_err env) (ckpt_write_err env) (lastID l') w) @
              [ExportedBatch workerID (sint (batchNum l)) (length results) filePath]\<rparr>"
  by (auto simp: advance_def Let_def split: option.splits bson_value.splits)

lemma write_batch_Fetching:
  "write_batch workerID env l results w = (Fetching, l', w') \<Longrightarrow>
     create_err env = None \<and> encode_err env = None \<and>
     advance workerID env l results (batch_path workerID (batchNum l))
       (w\<lparr>batch_files := (batch_files w)(batch_path workerID (batchNum l) \<mapsto> JSON results),
          effects := effects w @ [CreateFile (batch_path workerID (batchNum l)),
            WriteJSON (batch_path workerID (batchNum l)) results]\<rparr>) = (Fetching, l', w')"
  by (auto simp: write_batch_def Let_def split: option.splits)

lemma iter_Fetching:
  "exportWorker_iter workerID env l w = (Fetching, l', w') \<Longrightarrow>
     find_err env = None \<and> all_err env = None \<and>
     mongo_Find (collection env) (find_filter (lastID l)) find_opts \<noteq> [] \<and>
     write_batch workerID env l (mongo_Find (collection env) (find_filter (lastID l)) find_opts)
       (w\<lparr>effects := effects w @ [Query (find_filter (lastID l)) find_opts]\<rparr>) = (Fetching, l', w')"
  by (auto simp: exportWorker_iter_def Let_def split: option.splits if_splits)

lemma saveLastID_effects:
  "effects (saveLastID c1 c2 oid w) = effects w @ [SaveLastID oid]"
  by (simp add: saveLastID_def Let_def split: option.splits prod.splits)

lemma saveLastID_batch_files:
  "batch_files (saveLastID c1 c2 oid w) = batch_files w"
  by (simp add: saveLastID_def Let_def split: option.splits prod.splits)

lemma saveLastID_ok: "last_id_txt (saveLastID None None oid w) = Some (Hex oid)"
  by (simp add: saveLastID_def)

text \<open>What a completed iteration leaves behind.\<close>

lemma iter_Fetching_world:
  assumes "exportWorker_iter workerID env l w = (Fetching, l', w')"
  shows "effects w' = effects w @
           [Query (find_filter (lastID l)) find_opts,
            CreateFile (batch_path workerID (batchNum l)),
            WriteJSON (batch_path workerID (batchNum l))
              (mongo_Find (collection env) (find_filter (lastID l)) find_opts),
            SaveLastID (lastID l')]"
    and "batch_files w' = (batch_files w)(batch_path workerID (batchNum l) \<mapsto>
            JSON (mongo_Find (collection env) (find_filter (lastID l)) find_opts))"
    and "last_id_txt w' = last_id_txt
            (saveLastID (ckpt_create_err env) (ckpt_write_err env) (lastID l') w)"
    and "last (mongo_Find (collection env) (find_filter (lastID l)) find_opts) ''_id'' =
            Some (BObjectID (lastID l'))"
    and "batchNum l' = batchNum l + 1"
proof -
  let ?page = "mongo_Find (collection env) (find_filter (lastID l)) find_opts"
  let ?p = "batch_path workerID (batchNum l)"
  from iter_Fetching [OF assms]
  have wb: "write_batch workerID env l ?page
       (w\<lparr>effects := effects w @ [Query (find_filter (lastID l)) find_opts]\<rparr>) = (Fetching, l', w')"
    by simp
  from write_batch_Fetching [OF wb]
  have adv: "advance workerID env l ?page ?p
       (w\<lparr>effects := effects w @ [Query (find_filter (lastID l)) find_opts],
          batch_files := (batch_files w)(?p \<mapsto> JSON ?page),
          effects := (effects w @ [Query (find_filter (lastID l)) find_opts]) @
            [CreateFile ?p, WriteJSON ?p ?page]\<rparr>) = (Fetching, l', w')"
    by simp
  note a = advance_Fetching [OF adv]
  from a show "last ?page ''_id'' = Some (BObjectID (lastID l'))" "batchNum l' = batchNum l + 1"
    by simp_all
  from a show "effects w' = effects w @
           [Query (find_filter (lastID l)) find_opts, CreateFile ?p, WriteJSON ?p ?page,
            SaveLastID (lastID l')]"
    by (simp add: saveLastID_effects)
  from a show "batch_files w' = (batch_files w)(?p \<mapsto> JSON ?page)"
    by (simp add: saveLastID_batch_files)
  from a show "last_id_txt w' = last_id_txt
            (saveLastID (ckpt_create_err env) (ckpt_write_err env) (lastID l') w)"
    by (simp add: saveLastID_def Let_def split: option.splits prod.splits)
qed

lemma iter_status:
  "fst (exportWorker_iter workerID env l w) =
     (if find_err env \<noteq> None \<or> all_err env \<noteq> None then Failed
      else if mongo_Find (collection env) (find_filter (lastID l)) find_opts = [] then Done
      else if create_err env \<noteq> None \<or> encode_err env \<noteq> None then Failed
      else if \<exists>k. last (mongo_Find (collection env) (find_filter (lastID l)) find_opts) ''_id'' =
                  Some (BObjectID k) then Fetching
      else Panicked)"
  by (auto simp: exportWorker_iter_def write_batch_def advance_def Let_def
      split: option.splits bson_value.splits)

lemma iter_stopped:
  assumes "exportWorker_iter workerID env l w = (st, l', w')" and "st \<noteq> Fetching"
  shows "l' = l \<and> last_id_txt w' = last_id_txt w \<and>
     (\<exists>new. effects w' = effects w @ new \<and> saved_ids new = [] \<and>
        written_paths new = (if st = Panicked then [batch_path workerID (batchNum l)] else []) \<and>
        (created_paths new = written_paths new \<or>
         created_paths new = written_paths new @ [batch_path workerID (batchNum l)]))"
  using assms
  by (auto simp: exportWorker_iter_def write_batch_def advance_def Let_def
      split: option.splits bson_value.splits if_splits)

text \<open>
  C3. When an iteration has processed its page and the loop goes on, the page was not empty,
  the new \<^verbatim>\<open>lastID\<close> is the \<^verbatim>\<open>_id\<close> of the page's last record, which is the greatest \<^verbatim>\<open>_id\<close>
  of the page; it is the one value passed to \<^verbatim>\<open>saveLastID\<close>, the content of the checkpoint
  file when both calls of \<^verbatim>\<open>saveLastID\<close> succeed, and the cursor of the next query.
\<close>

theorem checkpoint_is_page_maximum:
  assumes "exportWorker_iter workerID env l w = (Fetching, l', w')"
  shows "mongo_Find (collection env) (find_filter (lastID l)) find_opts \<noteq> [] \<and>
     last (mongo_Find (collection env) (find_filter (lastID l)) find_opts) ''_id'' =
       Some (BObjectID (lastID l')) \<and>
     Max (field_key ''_id'' ` set (mongo_Find (collection env) (find_filter (lastID l)) find_opts)) =
       BObjectID (lastID l') \<and>
     saved_ids (drop (length (effects w)) (effects w')) = [lastID l'] \<and>
     (ckpt_create_err env = None \<and> ckpt_write_err env = None \<longrightarrow>
        last_id_txt w' = Some (Hex (lastID l'))) \<and>
     (\<exists>rest. effects (snd (snd (exportWorker_iter workerID env2 l' w'))) =
        effects w' @ Query (find_filter (lastID l')) find_opts # rest)"
proof -
  let ?page = "mongo_Find (collection env) (find_filter (lastID l)) find_opts"
  note f = iter_Fetching_world [OF assms]
  from iter_Fetching [OF assms] have ne: "?page \<noteq> []"
    by simp
  have "sorted (map (field_key ''_id'') ?page)"
    by (rule mongo_Find_sorted)
  with ne have "Max (set (map (field_key ''_id'') ?page)) = last (map (field_key ''_id'') ?page)"
    by (simp add: sorted_last_Max)
  also have "\<dots> = field_key ''_id'' (last ?page)"
    using ne by (simp add: last_map)
  also have "\<dots> = BObjectID (lastID l')"
    using f(4) by (simp add: field_key_def)
  finally have mx: "Max (field_key ''_id'' ` set ?page) = BObjectID (lastID l')"
    by simp
  have sv: "saved_ids (drop (length (effects w)) (effects w')) = [lastID l']"
    by (simp add: f(1))
  have ck: "ckpt_create_err env = None \<and> ckpt_write_err env = None \<longrightarrow>
        last_id_txt w' = Some (Hex (lastID l'))"
    by (simp add: f(3) saveLastID_ok)
  from ne f(4) mx sv ck iter_effects [of workerID env2 l' w'] show ?thesis
    by blast
qed


lemma IsZero_Nil: "IsZero NilObjectID"
  by (simp add: IsZero_def)

lemma quiet_sel:
  "collection (quiet coll) = coll" "find_err (quiet coll) = None" "all_err (quiet coll) = None"
  "create_err (quiet coll) = None" "encode_err (quiet coll) = None"
  "ckpt_create_err (quiet coll) = None" "ckpt_write_err (quiet coll) = None"
  by (simp_all add: quiet_def)

lemma doc_ids:
  "doc_1 ''_id'' = Some (BObjectID oid_1)" "doc_2 ''_id'' = Some (BObjectID oid_2)"
  "doc_text ''_id'' = Some (BString ''abc'')"
  by (simp_all add: doc_1_def doc_2_def doc_text_def)

theorem checkpoint_is_page_maximum_witness:
  "\<exists>l' w'. exportWorker_iter 0 (quiet [doc_2, doc_1]) \<lparr>lastID = NilObjectID, batchNum = 1\<rparr>
       fresh_world = (Fetching, l', w') \<and>
     mongo_Find [doc_2, doc_1] (find_filter NilObjectID) find_opts = [doc_1, doc_2] \<and>
     lastID l' = oid_2 \<and>
     Max (field_key ''_id'' ` set [doc_1, doc_2]) = BObjectID oid_2 \<and>
     ckpt_create_err (quiet [doc_2, doc_1]) = None \<and>
     ckpt_write_err (quiet [doc_2, doc_1]) = None \<and>
     last_id_txt w' = Some (Hex oid_2)"
proof -
  let ?l = "\<lparr>lastID = NilObjectID, batchNum = 1\<rparr>"
  have page: "mongo_Find [doc_2, doc_1] (find_filter NilObjectID) find_opts = [doc_1, doc_2]"
    by (simp add: find_filter_def IsZero_Nil find_from_start)
  have "fst (exportWorker_iter 0 (quiet [doc_2, doc_1]) ?l fresh_world) = Fetching"
    by (simp add: iter_status quiet_sel page doc_ids)
  then obtain l' w' where
    run: "exportWorker_iter 0 (quiet [doc_2, doc_1]) ?l fresh_world = (Fetching, l', w')"
    by (metis prod.collapse)
  from checkpoint_is_page_maximum [OF run, of undefined] page
  show ?thesis
    using run by (simp add: quiet_sel doc_ids)
qed

section \<open>The empty store\<close>

text \<open>
  C8. When the first fetch of a lane succeeds with an empty page, the lane is \<open>Done\<close> after that
  one iteration: no file was created, \<^verbatim>\<open>saveLastID\<close> was not called, the batch files and the
  checkpoint file are as before, and the lane's cursor is the one it started with.
\<close>

theorem empty_store_done:
  assumes "find_err env = None" and "all_err env = None"
    and "mongo_Find (collection env) (find_filter received) find_opts = []"
  shows "\<exists>w'. exportWorker_item workerID (env # envs) received w =
       (Done, \<lparr>lastID = received, batchNum = 1\<rparr>, w') \<and>
     batch_files w' = batch_files w \<and> last_id_txt w' = last_id_txt w \<and>
     effects w' = effects w @ [Query (find_filter received) find_opts] \<and>
     created_paths (drop (length (effects w)) (effects w')) = [] \<and>
     saved_ids (drop (length (effects w)) (effects w')) = [] \<and>
     logged w' = logged w @ [NoMoreRecords workerID]"
  using assms by (simp add: exportWorker_item_def exportWorker_iter_def)

lemma mongo_Find_Nil: "mongo_Find [] flt find_opts = []"
  by (simp add: mongo_Find_find_opts)

theorem empty_store_done_witness:
  "find_err (quiet []) = None \<and> all_err (quiet []) = None \<and>
   mongo_Find (collection (quiet [])) (find_filter NilObjectID) find_opts = [] \<and>
   (\<exists>w'. exportWorker_item 0 [quiet []] NilObjectID fresh_world =
       (Done, \<lparr>lastID = NilObjectID, batchNum = 1\<rparr>, w') \<and>
     batch_files w' = Map.empty \<and> last_id_txt w' = None \<and>
     effects w' = [Query MatchAll find_opts] \<and>
     logged w' = [NoMoreRecords 0])"
proof -
  have h: "find_err (quiet []) = None" "all_err (quiet []) = None"
    "mongo_Find (collection (quiet [])) (find_filter NilObjectID) find_opts = []"
    by (simp_all add: quiet_sel mongo_Find_Nil)
  from empty_store_done [OF h, of 0 "[]" fresh_world]
  obtain w' where "exportWorker_item 0 [quiet []] NilObjectID fresh_world =
       (Done, \<lparr>lastID = NilObjectID, batchNum = 1\<rparr>, w')"
    and "batch_files w' = Map.empty" and "last_id_txt w' = None"
    and "effects w' = [Query MatchAll find_opts]" and "logged w' = [NoMoreRecords 0]"
    by (auto simp: fresh_world_def find_filter_def IsZero_Nil)
  with h show ?thesis
    by blast
qed

section \<open>The type assertion on \<^verbatim>\<open>_id\<close>\<close>

lemma last_page_in_collection:
  "mongo_Find coll flt find_opts \<noteq> [] \<Longrightarrow> last (mongo_Find coll flt find_opts) \<in> set coll"
  using mongo_Find_subset [of coll flt] last_in_set [of "mongo_Find coll flt find_opts"] by blast

lemma iter_no_panic:
  assumes "\<forall>doc \<in> set (collection env). \<exists>k. doc ''_id'' = Some (BObjectID k)"
  shows "fst (exportWorker_iter workerID env l w) \<noteq> Panicked"
  using assms last_page_in_collection [of "collection env" "find_filter (lastID l)"]
  by (auto simp: iter_status)

lemma loop_no_panic:
  assumes "\<forall>e \<in> set envs. \<forall>doc \<in> set (collection e). \<exists>k. doc ''_id'' = Some (BObjectID k)"
  shows "fst (exportWorker_loop workerID envs l w) \<noteq> Panicked"
  using assms
proof (induction envs arbitrary: l w)
  case Nil
  then show ?case by simp
next
  case (Cons e envs)
  obtain st l' w' where it: "exportWorker_iter workerID e l w = (st, l', w')"
    by (metis prod.collapse)
  from Cons.prems have "fst (exportWorker_iter workerID e l w) \<noteq> Panicked"
    by (intro iter_no_panic) simp
  with it have "st \<noteq> Panicked"
    by simp
  with it Cons show ?case
    by (cases st) simp_all
qed

text \<open>
  C10. After a page has been fetched and written, the type assertion on the \<^verbatim>\<open>_id\<close> of its
  last record panics exactly when that record has no \<^verbatim>\<open>_id\<close> or one that is not an ObjectID.
  When every record of the collection has an ObjectID \<^verbatim>\<open>_id\<close>, no iteration and no run of the
  loop panics.
\<close>

theorem type_assertion_panic:
  "(find_err env = None \<and> all_err env = None \<and> create_err env = None \<and> encode_err env = None \<and>
    mongo_Find (collection env) (find_filter (lastID l)) find_opts \<noteq> [] \<and>
    (\<forall>k. last (mongo_Find (collection env) (find_filter (lastID l)) find_opts) ''_id'' \<noteq>
       Some (BObjectID k)) \<longrightarrow>
      fst (exportWorker_iter workerID env l w) = Panicked) \<and>
   (fst (exportWorker_iter workerID env l w) = Panicked \<longrightarrow>
      mongo_Find (collection env) (find_filter (lastID l)) find_opts \<noteq> [] \<and>
      (\<forall>k. last (mongo_Find (collection env) (find_filter (lastID l)) find_opts) ''_id'' \<noteq>
         Some (BObjectID k))) \<and>
   ((\<forall>doc \<in> set (collection env). \<exists>k. doc ''_id'' = Some (BObjectID k)) \<longrightarrow>
      fst (exportWorker_iter workerID env l w) \<noteq> Panicked) \<and>
   ((\<forall>e \<in> set envs. \<forall>doc \<in> set (collection e). \<exists>k. doc ''_id'' = Some (BObjectID k)) \<longrightarrow>
      fst (exportWorker_loop workerID envs l w) \<noteq> Panicked)"
proof (intro conjI impI)
  assume "\<forall>doc \<in> set (collection env). \<exists>k. doc ''_id'' = Some (BObjectID k)"
  then show "fst (exportWorker_iter workerID env l w) \<noteq> Panicked"
    by (rule iter_no_panic)
next
  assume "\<forall>e \<in> set envs. \<forall>doc \<in> set (collection e). \<exists>k. doc ''_id'' = Some (BObjectID k)"
  then show "fst (exportWorker_loop workerID envs l w) \<noteq> Panicked"
    by (rule loop_no_panic)
qed (auto simp: iter_status split: if_splits)

lemma find_single: "mongo_Find [doc] MatchAll find_opts = [doc]"
  by (simp add: mongo_Find_find_opts)

theorem type_assertion_panic_witness:
  "mongo_Find (collection (quiet [doc_text])) (find_filter NilObjectID) find_opts = [doc_text] \<and>
   last [doc_text] ''_id'' = Some (BString ''abc'') \<and>
   fst (exportWorker_iter 0 (quiet [doc_text]) \<lparr>lastID = NilObjectID, batchNum = 1\<rparr>
     fresh_world) = Panicked \<and>
   mongo_Find (collection (quiet [Map.empty])) (find_filter NilObjectID) find_opts = [Map.empty] \<and>
   last [Map.empty :: bson_M] ''_id'' = None \<and>
   fst (exportWorker_iter 0 (quiet [Map.empty]) \<lparr>lastID = NilObjectID, batchNum = 1\<rparr>
     fresh_world) = Panicked \<and>
   doc_1 ''_id'' = Some (BObjectID oid_1) \<and>
   fst (exportWorker_iter 0 (quiet [doc_1]) \<lparr>lastID = NilObjectID, batchNum = 1\<rparr>
     fresh_world) \<noteq> Panicked \<and>
   fst (exportWorker_loop 0 [quiet [doc_1], quiet [doc_1]] \<lparr>lastID = NilObjectID, batchNum = 1\<rparr>
     fresh_world) \<noteq> Panicked"
proof -
  let ?l = "\<lparr>lastID = NilObjectID, batchNum = 1\<rparr>"
  have f: "find_filter (lastID ?l) = MatchAll"
    by (simp add: find_filter_def IsZero_Nil)
  show ?thesis
    using type_assertion_panic [of "quiet [doc_text]" ?l 0 fresh_world "[]"]
      type_assertion_panic [of "quiet [Map.empty]" ?l 0 fresh_world "[]"]
      type_assertion_panic [of "quiet [doc_1]" ?l 0 fresh_world "[quiet [doc_1], quiet [doc_1]]"]
    by (simp add: f quiet_sel find_single doc_ids find_filter_def IsZero_Nil)
qed

section \<open>The order of write and checkpoint\<close>

lemma saved_ids_append: "saved_ids (xs @ ys) = saved_ids xs @ saved_ids ys"
  by (induction xs rule: saved_ids.induct) simp_all

lemma written_paths_append: "written_paths (xs @ ys) = written_paths xs @ written_paths ys"
  by (induction xs rule: written_paths.induct) simp_all

lemma created_paths_append: "created_paths (xs @ ys) = created_paths xs @ created_paths ys"
  by (induction xs rule: created_paths.induct) simp_all

lemma saveLastID_txt:
  "last_id_txt (saveLastID c1 c2 k w) = last_id_txt w \<or>
   (\<exists>n. last_id_txt (saveLastID c1 c2 k w) = Some (take n (Hex k)))"
proof (cases c1)
  case (Some e)
  then show ?thesis by (simp add: saveLastID_def)
next
  case None
  show ?thesis
  proof (cases c2)
    case None
    have "Hex k = take (length (Hex k)) (Hex k)" by simp
    with \<open>c1 = None\<close> None show ?thesis
      by (metis saveLastID_ok)
  next
    case (Some ne)
    with \<open>c1 = None\<close> show ?thesis
      by (cases ne) (auto simp: saveLastID_def)
  qed
qed

lemma iter_completed_block:
  assumes "exportWorker_iter workerID env l w = (Fetching, l', w')"
  shows "\<exists>b. effects w' = effects w @ b \<and> completed_block b \<and> last b = SaveLastID (lastID l') \<and>
     created_paths b = [batch_path workerID (batchNum l)] \<and>
     written_paths b = [batch_path workerID (batchNum l)]"
  using iter_Fetching_world [OF assms] iter_Fetching [OF assms]
  by (simp add: completed_block_def)

lemma loop_blocks:
  "exportWorker_loop workerID envs l w = (st, l', w') \<Longrightarrow>
     \<exists>blocks tail. effects w' = effects w @ concat blocks @ tail \<and>
       (\<forall>b \<in> set blocks. completed_block b) \<and> saved_ids tail = [] \<and>
       (last_id_txt w' = last_id_txt w \<or>
        (\<exists>b \<in> set blocks. \<exists>k n. last b = SaveLastID k \<and>
           last_id_txt w' = Some (take n (Hex k))))"
proof (induction envs arbitrary: l w)
  case Nil
  then have "effects w' = effects w @ concat [] @ []" "last_id_txt w' = last_id_txt w"
    by simp_all
  then show ?case
    by (intro exI [of _ "[]"]) simp
next
  case (Cons e envs)
  obtain st1 l1 w1 where it: "exportWorker_iter workerID e l w = (st1, l1, w1)"
    by (metis prod.collapse)
  show ?case
  proof (cases "st1 = Fetching")
    case True
    with it have it': "exportWorker_iter workerID e l w = (Fetching, l1, w1)"
      by simp
    from iter_completed_block [OF it'] obtain b where
      b: "effects w1 = effects w @ b" "completed_block b" "last b = SaveLastID (lastID l1)"
      by blast
    from Cons.prems it' have "exportWorker_loop workerID envs l1 w1 = (st, l', w')"
      by simp
    from Cons.IH [OF this] obtain blocks tail where
      r: "effects w' = effects w1 @ concat blocks @ tail"
        "\<forall>b \<in> set blocks. completed_block b" "saved_ids tail = []"
        "last_id_txt w' = last_id_txt w1 \<or>
          (\<exists>b \<in> set blocks. \<exists>k n. last b = SaveLastID k \<and>
             last_id_txt w' = Some (take n (Hex k)))"
      by blast
    have txt1: "last_id_txt w1 = last_id_txt w \<or>
        (\<exists>n. last_id_txt w1 = Some (take n (Hex (lastID l1))))"
      using iter_Fetching_world(3) [OF it'] saveLastID_txt by metis
    have e: "effects w' = effects w @ concat (b # blocks) @ tail"
      using b(1) r(1) by simp
    have c: "\<forall>x \<in> set (b # blocks). completed_block x"
      using b(2) r(2) by simp
    have "last_id_txt w' = last_id_txt w \<or>
        (\<exists>x \<in> set (b # blocks). \<exists>k n. last x = SaveLastID k \<and>
           last_id_txt w' = Some (take n (Hex k)))"
      using r(4) txt1 b(3) by (metis list.set_intros(1,2))
    with e c r(3) show ?thesis
      by blast
  next
    case False
    with Cons.prems it have eq: "st = st1" "l' = l1" "w' = w1"
      by (cases st1; simp)+
    from iter_stopped [OF it False] obtain new where
      "last_id_txt w1 = last_id_txt w" "effects w1 = effects w @ new" "saved_ids new = []"
      by blast
    with eq have "effects w' = effects w @ concat [] @ new" "saved_ids new = []"
      "last_id_txt w' = last_id_txt w"
      by simp_all
    then show ?thesis
      by (intro exI [of _ "[]"] exI [of _ new]) simp
  qed
qed


lemma iter_saved_imp_Fetching:
  assumes "saved_ids (drop (length (effects w))
      (effects (snd (snd (exportWorker_iter workerID env l w))))) \<noteq> []"
  shows "fst (exportWorker_iter workerID env l w) = Fetching"
proof (rule ccontr)
  assume n: "fst (exportWorker_iter workerID env l w) \<noteq> Fetching"
  obtain st l' w' where it: "exportWorker_iter workerID env l w = (st, l', w')"
    by (metis prod.collapse)
  with n have "st \<noteq> Fetching"
    by simp
  from iter_stopped [OF it this] assms it show False
    by auto
qed

text \<open>
  C2. In an iteration in which the fetch, the decoding, the creation of the batch file or the
  encoding fails, the lane is \<open>Failed\<close>, \<^verbatim>\<open>saveLastID\<close> is not called and the checkpoint file
  is unchanged. An iteration that calls \<^verbatim>\<open>saveLastID\<close> has created the batch file and encoded
  the whole page into it before. Over a run of the loop, the calls are those of completed
  iterations followed by calls without \<^verbatim>\<open>saveLastID\<close>, and the checkpoint file is either
  unchanged or holds (a prefix of) the hexadecimal form of the key a completed iteration
  saved.
\<close>

theorem checkpoint_only_after_write:
  "((find_err env \<noteq> None \<or> all_err env \<noteq> None \<or>
     (mongo_Find (collection env) (find_filter (lastID l)) find_opts \<noteq> [] \<and>
      (create_err env \<noteq> None \<or> encode_err env \<noteq> None))) \<longrightarrow>
      fst (exportWorker_iter workerID env l w) = Failed \<and>
      last_id_txt (snd (snd (exportWorker_iter workerID env l w))) = last_id_txt w \<and>
      saved_ids (drop (length (effects w))
        (effects (snd (snd (exportWorker_iter workerID env l w))))) = []) \<and>
   (saved_ids (drop (length (effects w))
        (effects (snd (snd (exportWorker_iter workerID env l w))))) \<noteq> [] \<longrightarrow>
      create_err env = None \<and> encode_err env = None \<and>
      completed_block (drop (length (effects w))
        (effects (snd (snd (exportWorker_iter workerID env l w))))) \<and>
      batch_files (snd (snd (exportWorker_iter workerID env l w)))
          (batch_path workerID (batchNum l)) =
        Some (JSON (mongo_Find (collection env) (find_filter (lastID l)) find_opts))) \<and>
   (exportWorker_loop workerID envs l w = (st, l', w') \<longrightarrow>
      (\<exists>blocks tail. effects w' = effects w @ concat blocks @ tail \<and>
         (\<forall>b \<in> set blocks. completed_block b) \<and> saved_ids tail = [] \<and>
         (last_id_txt w' = last_id_txt w \<or>
          (\<exists>b \<in> set blocks. \<exists>k n. last b = SaveLastID k \<and>
             last_id_txt w' = Some (take n (Hex k))))))"
proof (intro conjI impI)
  assume "exportWorker_loop workerID envs l w = (st, l', w')"
  then show "\<exists>blocks tail. effects w' = effects w @ concat blocks @ tail \<and>
         (\<forall>b \<in> set blocks. completed_block b) \<and> saved_ids tail = [] \<and>
         (last_id_txt w' = last_id_txt w \<or>
          (\<exists>b \<in> set blocks. \<exists>k n. last b = SaveLastID k \<and>
             last_id_txt w' = Some (take n (Hex k))))"
    by (rule loop_blocks)
next
  assume err: "find_err env \<noteq> None \<or> all_err env \<noteq> None \<or>
     (mongo_Find (collection env) (find_filter (lastID l)) find_opts \<noteq> [] \<and>
      (create_err env \<noteq> None \<or> encode_err env \<noteq> None))"
  obtain st1 l1 w1 where it: "exportWorker_iter workerID env l w = (st1, l1, w1)"
    by (metis prod.collapse)
  from err have f: "fst (exportWorker_iter workerID env l w) = Failed"
    by (auto simp: iter_status)
  with it have "st1 \<noteq> Fetching"
    by simp
  note s = iter_stopped [OF it this]
  from f show "fst (exportWorker_iter workerID env l w) = Failed" .
  from s it show "last_id_txt (snd (snd (exportWorker_iter workerID env l w))) = last_id_txt w"
    by simp
  from s it show "saved_ids (drop (length (effects w))
        (effects (snd (snd (exportWorker_iter workerID env l w))))) = []"
    by auto
next
  assume sv: "saved_ids (drop (length (effects w))
        (effects (snd (snd (exportWorker_iter workerID env l w))))) \<noteq> []"
  obtain st1 l1 w1 where it: "exportWorker_iter workerID env l w = (st1, l1, w1)"
    by (metis prod.collapse)
  from iter_saved_imp_Fetching [OF sv] it
  have it': "exportWorker_iter workerID env l w = (Fetching, l1, w1)"
    by simp
  from it' show "create_err env = None" "encode_err env = None"
    using iter_status [of workerID env l w] by (auto split: if_splits)
  from iter_completed_block [OF it'] it'
  show "completed_block (drop (length (effects w))
        (effects (snd (snd (exportWorker_iter workerID env l w)))))"
    by auto
  from iter_Fetching_world(2) [OF it'] it'
  show "batch_files (snd (snd (exportWorker_iter workerID env l w)))
          (batch_path workerID (batchNum l)) =
        Some (JSON (mongo_Find (collection env) (find_filter (lastID l)) find_opts))"
    by simp
qed


lemma encode_fails_sel:
  "collection (encode_fails coll) = coll" "find_err (encode_fails coll) = None"
  "all_err (encode_fails coll) = None" "create_err (encode_fails coll) = None"
  "encode_err (encode_fails coll) = Some (IOError ''no space left on device'')"
  by (simp_all add: encode_fails_def quiet_def)

theorem checkpoint_only_after_write_witness:
  "mongo_Find (collection (encode_fails [doc_1])) (find_filter NilObjectID) find_opts \<noteq> [] \<and>
   encode_err (encode_fails [doc_1]) \<noteq> None \<and>
   fst (exportWorker_iter 0 (encode_fails [doc_1]) \<lparr>lastID = NilObjectID, batchNum = 1\<rparr>
     fresh_world) = Failed \<and>
   last_id_txt (snd (snd (exportWorker_iter 0 (encode_fails [doc_1])
     \<lparr>lastID = NilObjectID, batchNum = 1\<rparr> fresh_world))) = None \<and>
   saved_ids (drop (length (effects fresh_world))
     (effects (snd (snd (exportWorker_iter 0 (quiet [doc_1])
        \<lparr>lastID = NilObjectID, batchNum = 1\<rparr> fresh_world))))) = [oid_1] \<and>
   batch_files (snd (snd (exportWorker_iter 0 (quiet [doc_1])
        \<lparr>lastID = NilObjectID, batchNum = 1\<rparr> fresh_world))) (batch_path 0 1) =
     Some (JSON [doc_1]) \<and>
   (\<exists>blocks tail.
      effects (snd (snd (exportWorker_loop 0 [quiet [doc_1], encode_fails [doc_2]]
        \<lparr>lastID = NilObjectID, batchNum = 1\<rparr> fresh_world))) =
        effects fresh_world @ concat blocks @ tail \<and>
      (\<forall>b \<in> set blocks. completed_block b) \<and> saved_ids tail = [])"
proof -
  let ?l = "\<lparr>lastID = NilObjectID, batchNum = 1\<rparr>"
  let ?envs = "[quiet [doc_1], encode_fails [doc_2]]"
  have f: "find_filter (lastID ?l) = MatchAll" "find_filter NilObjectID = MatchAll"
    by (simp_all add: find_filter_def IsZero_Nil)
  have "fst (exportWorker_iter 0 (quiet [doc_1]) ?l fresh_world) = Fetching"
    by (simp add: iter_status quiet_sel f find_single doc_ids)
  then obtain l1 w1 where
    it: "exportWorker_iter 0 (quiet [doc_1]) ?l fresh_world = (Fetching, l1, w1)"
    by (metis prod.collapse)
  have sv: "saved_ids (drop (length (effects fresh_world))
     (effects (snd (snd (exportWorker_iter 0 (quiet [doc_1]) ?l fresh_world))))) = [oid_1]"
    using iter_Fetching_world(1,4) [OF it] it by (simp add: quiet_sel f find_single doc_ids)
  have lp: "exportWorker_loop 0 ?envs ?l fresh_world =
      (fst (exportWorker_loop 0 ?envs ?l fresh_world),
       fst (snd (exportWorker_loop 0 ?envs ?l fresh_world)),
       snd (snd (exportWorker_loop 0 ?envs ?l fresh_world)))"
    by simp
  show ?thesis
    using sv
      checkpoint_only_after_write [of "encode_fails [doc_1]" ?l 0 fresh_world "[]"]
      checkpoint_only_after_write [of "quiet [doc_1]" ?l 0 fresh_world "[]"]
      checkpoint_only_after_write [of "quiet [doc_1]" ?l 0 fresh_world ?envs, THEN conjunct2,
        THEN conjunct2, rule_format, OF lp]
    by (simp add: f quiet_sel encode_fails_sel find_single fresh_world_def) blast
qed

section \<open>The names of the batch files\<close>

lemma loop_paths:
  "exportWorker_loop workerID envs l w = (st, l', w') \<Longrightarrow>
     \<exists>n new. batchNum l' = batchNum l + of_nat n \<and> effects w' = effects w @ new \<and>
        written_paths new = map (\<lambda>k. batch_path workerID (batchNum l + of_nat k))
          [0..<n + (if st = Panicked then 1 else 0)] \<and>
        (created_paths new = written_paths new \<or>
         created_paths new = written_paths new @ [batch_path workerID (batchNum l')])"
proof (induction envs arbitrary: l w)
  case Nil
  then have "batchNum l' = batchNum l + of_nat 0" "effects w' = effects w @ []" "st = Fetching"
    by simp_all
  then show ?case
    by (intro exI [of _ 0] exI [of _ "[]"]) simp
next
  case (Cons e envs)
  obtain st1 l1 w1 where it: "exportWorker_iter workerID e l w = (st1, l1, w1)"
    by (metis prod.collapse)
  show ?case
  proof (cases "st1 = Fetching")
    case True
    with it have it': "exportWorker_iter workerID e l w = (Fetching, l1, w1)"
      by simp
    from iter_completed_block [OF it'] obtain b where
      b: "effects w1 = effects w @ b" "created_paths b = [batch_path workerID (batchNum l)]"
        "written_paths b = [batch_path workerID (batchNum l)]"
      by blast
    have n1: "batchNum l1 = batchNum l + 1"
      by (rule iter_Fetching_world(5) [OF it'])
    from Cons.prems it' have "exportWorker_loop workerID envs l1 w1 = (st, l', w')"
      by simp
    from Cons.IH [OF this] obtain n new where
      r: "batchNum l' = batchNum l1 + of_nat n" "effects w' = effects w1 @ new"
        "written_paths new = map (\<lambda>k. batch_path workerID (batchNum l1 + of_nat k))
          [0..<n + (if st = Panicked then 1 else 0)]"
        "created_paths new = written_paths new \<or>
         created_paths new = written_paths new @ [batch_path workerID (batchNum l')]"
      by blast
    have num: "batchNum l' = batchNum l + of_nat (Suc n)"
      using r(1) n1 by simp
    have e: "effects w' = effects w @ (b @ new)"
      using b(1) r(2) by simp
    have wr: "written_paths (b @ new) = map (\<lambda>k. batch_path workerID (batchNum l + of_nat k))
          [0..<Suc n + (if st = Panicked then 1 else 0)]"
      using b(3) r(3) n1
      by (simp add: written_paths_append map_upt_Suc add.assoc del: upt_Suc)
    have cr: "created_paths (b @ new) = written_paths (b @ new) \<or>
         created_paths (b @ new) = written_paths (b @ new) @ [batch_path workerID (batchNum l')]"
      using b(2,3) r(4) by (auto simp: written_paths_append created_paths_append)
    from num e wr cr show ?thesis
      by blast
  next
    case False
    with Cons.prems it have eq: "st = st1" "l' = l1" "w' = w1"
      by (cases st1; simp)+
    from iter_stopped [OF it False] obtain new where
      s: "l1 = l" "effects w1 = effects w @ new"
        "written_paths new = (if st1 = Panicked then [batch_path workerID (batchNum l)] else [])"
        "created_paths new = written_paths new \<or>
         created_paths new = written_paths new @ [batch_path workerID (batchNum l)]"
      by blast
    from s eq have "batchNum l' = batchNum l + of_nat 0" "effects w' = effects w @ new"
      "written_paths new = map (\<lambda>k. batch_path workerID (batchNum l + of_nat k))
          [0..<0 + (if st = Panicked then 1 else 0)]"
      "created_paths new = written_paths new \<or>
         created_paths new = written_paths new @ [batch_path workerID (batchNum l')]"
      by simp_all
    then show ?thesis
      by blast
  qed
qed

lemma iter_ckpt_independent:
  "fst (exportWorker_iter workerID (env\<lparr>ckpt_create_err := c1, ckpt_write_err := c2\<rparr>) l w) =
     fst (exportWorker_iter workerID env l w) \<and>
   fst (snd (exportWorker_iter workerID (env\<lparr>ckpt_create_err := c1, ckpt_write_err := c2\<rparr>) l w)) =
     fst (snd (exportWorker_iter workerID env l w)) \<and>
   effects (snd (snd
       (exportWorker_iter workerID (env\<lparr>ckpt_create_err := c1, ckpt_write_err := c2\<rparr>) l w))) =
     effects (snd (snd (exportWorker_iter workerID env l w)))"
  by (simp add: exportWorker_iter_def write_batch_def advance_def Let_def saveLastID_effects
      split: option.splits bson_value.splits)

lemma sint_batch_number:
  "k < 2 ^ 63 - 1 \<Longrightarrow> sint (1 + of_nat k :: go_int) = int k + 1"
proof -
  assume k: "k < 2 ^ 63 - 1"
  have "sint (of_nat (Suc k) :: go_int) = signed_take_bit 63 (int (Suc k))"
    by (simp only: signed_of_nat) simp
  also have "\<dots> = int (Suc k)"
    using k by (intro signed_take_bit_int_eq_self) simp_all
  finally show ?thesis
    by simp
qed

text \<open>
  C9. For one value received from the channel, \<^verbatim>\<open>batchNum\<close> starts at 1, and the files a page
  was encoded into are \<^verbatim>\<open>exports/batch_<batchNum>_worker_<workerID>.json\<close> for the successive
  values 1, 1 + 1, ... of \<^verbatim>\<open>batchNum\<close>: as many as there were completed iterations (and one more
  when the type assertion that follows the write panicked); a file that was created without
  being encoded has the next number. The number printed is the count itself as long as the
  count is below \<open>2 ^ 63\<close>. A completed iteration increments \<^verbatim>\<open>batchNum\<close> by one, and neither the
  status nor the variables of the lane after an iteration depend on what the two calls of
  \<^verbatim>\<open>saveLastID\<close> return.
\<close>

theorem batch_file_numbering:
  "(exportWorker_item workerID envs received w = (st, l', w') \<longrightarrow>
      (\<exists>n new. batchNum l' = 1 + of_nat n \<and> effects w' = effects w @ new \<and>
         written_paths new = map (\<lambda>k. batch_path workerID (1 + of_nat k))
           [0..<n + (if st = Panicked then 1 else 0)] \<and>
         (created_paths new = written_paths new \<or>
          created_paths new = written_paths new @ [batch_path workerID (batchNum l')]))) \<and>
   batch_path workerID b =
     ''exports/batch_'' @ fmt_d (sint b) @ ''_worker_'' @ fmt_d workerID @ ''.json'' \<and>
   (k < 2 ^ 63 - 1 \<longrightarrow> sint (1 + of_nat k :: go_int) = int k + 1) \<and>
   (exportWorker_iter workerID env l w0 = (Fetching, l1, w1) \<longrightarrow> batchNum l1 = batchNum l + 1) \<and>
   fst (exportWorker_iter workerID (env\<lparr>ckpt_create_err := c1, ckpt_write_err := c2\<rparr>) l w0) =
     fst (exportWorker_iter workerID env l w0) \<and>
   fst (snd (exportWorker_iter workerID (env\<lparr>ckpt_create_err := c1, ckpt_write_err := c2\<rparr>) l w0)) =
     fst (snd (exportWorker_iter workerID env l w0))"
proof (intro conjI impI)
  assume run: "exportWorker_item workerID envs received w = (st, l', w')"
  from loop_paths [OF run [unfolded exportWorker_item_def]]
  show "\<exists>n new. batchNum l' = 1 + of_nat n \<and> effects w' = effects w @ new \<and>
         written_paths new = map (\<lambda>k. batch_path workerID (1 + of_nat k))
           [0..<n + (if st = Panicked then 1 else 0)] \<and>
         (created_paths new = written_paths new \<or>
          created_paths new = written_paths new @ [batch_path workerID (batchNum l')])"
    by simp
next
  show "batch_path workerID b =
     ''exports/batch_'' @ fmt_d (sint b) @ ''_worker_'' @ fmt_d workerID @ ''.json''"
    by (simp add: batch_path_def filepath_Join_def exportDir_def)
next
  assume "k < 2 ^ 63 - 1"
  then show "sint (1 + of_nat k :: go_int) = int k + 1"
    by (rule sint_batch_number)
next
  assume "exportWorker_iter workerID env l w0 = (Fetching, l1, w1)"
  then show "batchNum l1 = batchNum l + 1"
    by (rule iter_Fetching_world(5))
qed (simp_all add: iter_ckpt_independent)

lemma fmt_d_small: "fmt_d 0 = ''0''" "fmt_d 1 = ''1''" "fmt_d 2 = ''2''" "fmt_d 3 = ''3''"
  by (simp_all add: fmt_d_def digits.simps char_of_def bit_iff_odd_drop_bit drop_bit_eq_div)

lemma batch_path_samples:
  "batch_path 0 1 = ''exports/batch_1_worker_0.json''"
  "batch_path 0 2 = ''exports/batch_2_worker_0.json''"
  by (simp_all add: batch_path_def filepath_Join_def exportDir_def fmt_d_small)

lemma fmt_d_large: "fmt_d 1205 = ''1205''" "fmt_d (- 37) = ''-37''"
  by (simp_all add: fmt_d_def digits.simps char_of_def bit_iff_odd_drop_bit drop_bit_eq_div)


lemma ckpt_fails_sel:
  "collection (ckpt_fails coll) = coll" "find_err (ckpt_fails coll) = None"
  "all_err (ckpt_fails coll) = None" "create_err (ckpt_fails coll) = None"
  "encode_err (ckpt_fails coll) = None"
  "ckpt_create_err (ckpt_fails coll) = Some (IOError ''permission denied'')"
  by (simp_all add: ckpt_fails_def quiet_def)

lemma oid_2_not_nil: "oid_2 \<noteq> NilObjectID"
  by (simp add: oid_2_def NilObjectID_def ObjectID_of_inject eval_nat_numeral)

lemma find_after_oid_1_of_two: "mongo_Find [doc_1, doc_2] (IdGt oid_1) find_opts = [doc_2]"
  using oid_1_less_2 by (simp add: mongo_Find_find_opts doc_ids)

lemma find_after_oid_2: "mongo_Find [doc_1, doc_2] (IdGt oid_2) find_opts = []"
  using oid_1_less_2 by (simp add: mongo_Find_find_opts doc_ids)

lemma three_iterations:
  "\<exists>l' w'. exportWorker_item 0 [quiet [doc_1], ckpt_fails [doc_1, doc_2], quiet [doc_1, doc_2]]
       NilObjectID fresh_world = (Done, l', w') \<and>
     batchNum l' = 3 \<and> lastID l' = oid_2 \<and> last_id_txt w' = Some (Hex oid_1) \<and>
     written_paths (effects w') =
       [''exports/batch_1_worker_0.json'', ''exports/batch_2_worker_0.json'']"
proof -
  let ?l0 = "\<lparr>lastID = NilObjectID, batchNum = 1\<rparr>"
  have "fst (exportWorker_iter 0 (quiet [doc_1]) ?l0 fresh_world) = Fetching"
    by (simp add: iter_status quiet_sel find_filter_def IsZero_Nil find_single doc_ids)
  then obtain l1 w1 where
    it1: "exportWorker_iter 0 (quiet [doc_1]) ?l0 fresh_world = (Fetching, l1, w1)"
    by (metis prod.collapse)
  from iter_Fetching_world(3,4,5) [OF it1]
  have l1: "l1 = \<lparr>lastID = oid_1, batchNum = 2\<rparr>"
    and t1: "last_id_txt w1 = Some (Hex oid_1)"
    by (simp_all add: quiet_sel find_filter_def IsZero_Nil find_single doc_ids saveLastID_ok)
  have f1: "find_filter oid_1 = IdGt oid_1"
    by (simp add: find_filter_def IsZero_def oid_1_not_nil)
  have "fst (exportWorker_iter 0 (ckpt_fails [doc_1, doc_2]) l1 w1) = Fetching"
    by (simp add: iter_status ckpt_fails_sel l1 f1 find_after_oid_1_of_two doc_ids)
  then obtain l2 w2 where
    it2: "exportWorker_iter 0 (ckpt_fails [doc_1, doc_2]) l1 w1 = (Fetching, l2, w2)"
    by (metis prod.collapse)
  from iter_Fetching_world(3,4,5) [OF it2]
  have l2: "l2 = \<lparr>lastID = oid_2, batchNum = 3\<rparr>" and t2: "last_id_txt w2 = Some (Hex oid_1)"
    by (simp_all add: ckpt_fails_sel f1 find_after_oid_1_of_two doc_ids l1 t1 saveLastID_def)
  have f2: "find_filter oid_2 = IdGt oid_2"
    by (simp add: find_filter_def IsZero_def oid_2_not_nil)
  obtain st3 l3 w3 where
    it3: "exportWorker_iter 0 (quiet [doc_1, doc_2]) l2 w2 = (st3, l3, w3)"
    by (metis prod.collapse)
  have "fst (exportWorker_iter 0 (quiet [doc_1, doc_2]) l2 w2) = Done"
    by (simp add: iter_status quiet_sel l2 f2 find_after_oid_2)
  with it3 have st3: "st3 = Done"
    by simp
  with iter_stopped [OF it3] obtain new where
    s3: "l3 = l2" "last_id_txt w3 = last_id_txt w2" "effects w3 = effects w2 @ new"
      "written_paths new = []"
    by auto
  have "written_paths (effects w3) =
      [''exports/batch_1_worker_0.json'', ''exports/batch_2_worker_0.json'']"
    using iter_Fetching_world(1) [OF it1] iter_Fetching_world(1) [OF it2] s3(3,4)
    by (simp add: written_paths_append fresh_world_def l1 batch_path_samples)
  with it1 it2 it3 st3 l2 t2 s3 show ?thesis
    by (simp add: exportWorker_item_def)
qed

theorem batch_file_numbering_witness:
  "\<exists>l' w'. exportWorker_item 0 [quiet [doc_1], ckpt_fails [doc_1, doc_2], quiet [doc_1, doc_2]]
       NilObjectID fresh_world = (Done, l', w') \<and>
     batchNum l' = 3 \<and> last_id_txt w' = Some (Hex oid_1) \<and>
     written_paths (effects w') =
       [''exports/batch_1_worker_0.json'', ''exports/batch_2_worker_0.json''] \<and>
     (\<exists>n new. batchNum l' = 1 + of_nat n \<and> effects w' = effects fresh_world @ new \<and>
        written_paths new = map (\<lambda>k. batch_path 0 (1 + of_nat k)) [0..<n]) \<and>
     (1 :: nat) < 2 ^ 63 - 1 \<and> sint (1 + of_nat 1 :: go_int) = 2"
proof -
  from three_iterations obtain l' w' where
    run: "exportWorker_item 0 [quiet [doc_1], ckpt_fails [doc_1, doc_2], quiet [doc_1, doc_2]]
       NilObjectID fresh_world = (Done, l', w')"
    and n: "batchNum l' = 3" and t: "last_id_txt w' = Some (Hex oid_1)"
    and p: "written_paths (effects w') =
       [''exports/batch_1_worker_0.json'', ''exports/batch_2_worker_0.json'']"
    by blast
  note inst = batch_file_numbering [of 0 _ NilObjectID fresh_world Done l' w' 1 1 "quiet []"
      "\<lparr>lastID = NilObjectID, batchNum = 1\<rparr>" fresh_world l' w' None None]
  from inst [THEN conjunct1, rule_format, OF run]
  have c: "\<exists>n new. batchNum l' = 1 + of_nat n \<and> effects w' = effects fresh_world @ new \<and>
        written_paths new = map (\<lambda>k. batch_path 0 (1 + of_nat k)) [0..<n]"
    by auto
  have k: "(1 :: nat) < 2 ^ 63 - 1"
    by simp
  from inst [THEN conjunct2, THEN conjunct2, THEN conjunct1, rule_format, OF k]
  have "sint (1 + of_nat 1 :: go_int) = 2"
    by simp
  with run n t p c k show ?thesis
    by blast
qed

section \<open>The coordinator\<close>

lemma step_running_main:
  assumes "lane_running p" and "lane_ahead p = a"
  shows "lane_running (step_main p) \<and> lane_ahead (step_main p) = a"
  using assms
  by (auto simp: lane_running_def lane_ahead_def step_main_def workers_def
      split: main_pc.splits)

lemma step_running_closer:
  assumes "lane_running p" and "lane_ahead p = a"
  shows "lane_running (step_closer p) \<and> lane_ahead (step_closer p) = a"
  using assms
  by (auto simp: lane_running_def lane_ahead_def step_closer_def
      split: closer_pc.splits)


lemma step_running_worker:
  assumes "lane_running p"
  shows "(lane_running (step_worker i p) \<and> lane_ahead (step_worker i p) = lane_ahead p) \<or>
     (lane_ahead p = Failed \<and> lane_returned (step_worker i p)) \<or>
     (lane_ahead p = Panicked \<and> exit_status (step_worker i p) = Some 2)"
proof (cases "i = 0")
  case False
  with assms have "step_worker i p = p"
    by (auto simp: lane_running_def step_worker_def)
  with assms show ?thesis
    by simp
next
  case True
  from assms consider
    (idle) "workers_at p = [WorkerReceive]" "workChan p = []"
    | (sent) v where "workers_at p = [WorkerReceive]" "main_at p \<noteq> MainSend" "workChan p = [v]"
    | (loop) l where "main_at p \<noteq> MainSend" "workChan p = []" "workers_at p = [WorkerLoop l]"
    by (auto simp: lane_running_def)
  then show ?thesis
  proof cases
    case idle
    with assms True have "step_worker i p = p"
      by (simp add: lane_running_def step_worker_def)
    with assms show ?thesis
      by simp
  next
    case sent
    with assms True show ?thesis
      by (simp add: lane_running_def lane_ahead_def step_worker_def exportWorker_item_def)
  next
    case loop
    show ?thesis
    proof (cases "pending p")
      case Nil
      with loop True have "step_worker i p = p"
        by (simp add: step_worker_def)
      with assms show ?thesis
        by simp
    next
      case (Cons env envs)
      obtain st l' w' where it: "exportWorker_iter 0 env l (os p) = (st, l', w')"
        by (metis prod.collapse)
      show ?thesis
      proof (cases st)
        case Fetching
        with assms True loop Cons it show ?thesis
          by (simp add: lane_running_def lane_ahead_def step_worker_def)
      next
        case Done
        with assms True loop Cons it show ?thesis
          by (simp add: lane_running_def lane_ahead_def step_worker_def)
      next
        case Failed
        with assms True loop Cons it show ?thesis
          by (auto simp: lane_running_def lane_returned_def lane_ahead_def step_worker_def
              wg_Done_def)
      next
        case Panicked
        with assms True loop Cons it show ?thesis
          by (simp add: lane_running_def lane_ahead_def step_worker_def wg_Done_def)
      qed
    qed
  qed
qed


lemma step_running:
  assumes "lane_running p"
  shows "(lane_running (step g p) \<and> lane_ahead (step g p) = lane_ahead p) \<or>
     (lane_ahead p = Failed \<and> lane_returned (step g p)) \<or>
     (lane_ahead p = Panicked \<and> exit_status (step g p) = Some 2)"
proof -
  from assms have "exit_status p = None"
    by (simp add: lane_running_def)
  then show ?thesis
    using step_running_main [OF assms refl] step_running_closer [OF assms refl]
      step_running_worker [OF assms]
    by (cases g) (simp_all add: step_def)
qed


lemma run_never_returns:
  assumes "lane_running p" and "lane_ahead p = Done \<or> lane_ahead p = Fetching"
  shows "lane_running (run sched p) \<and> lane_ahead (run sched p) = lane_ahead p"
  using assms
proof (induction sched arbitrary: p)
  case Nil
  then show ?case by simp
next
  case (Cons g sched)
  from step_running [OF Cons.prems(1), of g] Cons.prems(2)
  have "lane_running (step g p)" "lane_ahead (step g p) = lane_ahead p"
    by auto
  with Cons.IH [of "step g p"] Cons.prems(2) show ?case
    by simp
qed


lemma start_running: "lane_running (start read envs w)"
  by (simp add: lane_running_def start_def workers_def)

lemma start_ahead:
  "lane_ahead (start read envs w) =
     fst (exportWorker_item 0 envs (fst (loadLastID read)) (os (start read envs w)))"
  by (simp add: lane_ahead_def start_def workers_def)







lemma lane_done_iff_empty_page:
  "fst (exportWorker_iter workerID env l w) = Done \<longleftrightarrow>
     find_err env = None \<and> all_err env = None \<and>
     mongo_Find (collection env) (find_filter (lastID l)) find_opts = []"
  by (auto simp: iter_status)

text \<open>
  C4. An iteration ends the inner loop with \<^verbatim>\<open>break\<close> exactly when the fetch succeeds with
  an empty page (\<open>lane_done_iff_empty_page\<close>). After the \<^verbatim>\<open>break\<close> the worker is back at
  \<^verbatim>\<open>range workChan\<close>; the channel is closed only after \<^verbatim>\<open>wg.Wait()\<close>, which waits for the
  worker's \<^verbatim>\<open>wg.Done()\<close>. So when the lane of the value sent on the channel ends \<open>Done\<close>, then
  under every schedule the counter of the \<^verbatim>\<open>WaitGroup\<close> stays 1, the channel stays open, the
  worker does not return, \<^verbatim>\<open>main\<close> does not get past \<^verbatim>\<open>wg.Wait()\<close> to log the completion, and no
  step of the program ends the process.
\<close>

theorem done_lane_never_reported:
  assumes "fst (exportWorker_item 0 envs (fst (loadLastID read)) (os (start read envs w))) = Done"
  shows "exit_status (run sched (start read envs w)) = None \<and>
     wg (run sched (start read envs w)) = 1 \<and>
     \<not> chan_closed (run sched (start read envs w)) \<and>
     main_at (run sched (start read envs w)) \<noteq> MainReport \<and>
     main_at (run sched (start read envs w)) \<noteq> MainReturned \<and>
     WorkerReturned \<notin> set (workers_at (run sched (start read envs w)))"
proof -
  from assms have "lane_ahead (start read envs w) = Done \<or> lane_ahead (start read envs w) = Fetching"
    by (simp add: start_ahead)
  from run_never_returns [OF start_running this, of sched]
  have "lane_running (run sched (start read envs w))"
    by simp
  then show ?thesis
    by (auto simp: lane_running_def)
qed


lemma load_absent:
  "loadLastID (Inl (IOError ''no such file'')) = (NilObjectID, [NoPreviousLastID])"
  by (simp add: loadLastID_def)

lemma empty_run_blocked:
  "run [Main, Worker 0, Worker 0, Main, Main, Closer, Main, Worker 0]
     (start (Inl (IOError ''no such file'')) [quiet []] fresh_world) =
   \<lparr>wg = 1, workChan = [], chan_closed = False, main_at = MainWait, closer_at = CloserWait,
    workers_at = [WorkerReceive], main_lastID = NilObjectID, pending = [],
    os = \<lparr>last_id_txt = None, batch_files = Map.empty,
      logged = [NoPreviousLastID, ResumingExport NilObjectID, NoMoreRecords 0],
      effects = [Query MatchAll find_opts]\<rparr>,
    exit_status = None\<rparr>"
  by (simp add: start_def load_absent fresh_world_def workers_def step_def step_main_def
      step_worker_def step_closer_def exportWorker_iter_def quiet_sel find_filter_def IsZero_Nil
      mongo_Find_Nil)



theorem done_lane_never_reported_witness:
  "fst (exportWorker_item 0 [quiet []] (fst (loadLastID (Inl (IOError ''no such file''))))
     (os (start (Inl (IOError ''no such file'')) [quiet []] fresh_world))) = Done \<and>
   exit_status (run [Main, Worker 0, Worker 0, Main, Main, Closer, Main, Worker 0]
     (start (Inl (IOError ''no such file'')) [quiet []] fresh_world)) = None \<and>
   main_at (run [Main, Worker 0, Worker 0, Main, Main, Closer, Main, Worker 0]
     (start (Inl (IOError ''no such file'')) [quiet []] fresh_world)) \<noteq> MainReturned \<and>
   main_at (run [Main, Worker 0, Worker 0, Main, Main, Closer, Main, Worker 0]
     (start (Inl (IOError ''no such file'')) [quiet []] fresh_world)) = MainWait \<and>
   closer_at (run [Main, Worker 0, Worker 0, Main, Main, Closer, Main, Worker 0]
     (start (Inl (IOError ''no such file'')) [quiet []] fresh_world)) = CloserWait \<and>
   workers_at (run [Main, Worker 0, Worker 0, Main, Main, Closer, Main, Worker 0]
     (start (Inl (IOError ''no such file'')) [quiet []] fresh_world)) = [WorkerReceive] \<and>
   workChan (run [Main, Worker 0, Worker 0, Main, Main, Closer, Main, Worker 0]
     (start (Inl (IOError ''no such file'')) [quiet []] fresh_world)) = []"
proof -
  let ?p = "run [Main, Worker 0, Worker 0, Main, Main, Closer, Main, Worker 0]
     (start (Inl (IOError ''no such file'')) [quiet []] fresh_world)"
  have d: "fst (exportWorker_item 0 [quiet []] (fst (loadLastID (Inl (IOError ''no such file''))))
     (os (start (Inl (IOError ''no such file'')) [quiet []] fresh_world))) = Done"
    by (simp add: exportWorker_item_def exportWorker_iter_def quiet_sel mongo_Find_Nil)
  note t = done_lane_never_reported [OF d,
      of "[Main, Worker 0, Worker 0, Main, Main, Closer, Main, Worker 0]"]
  have e: "main_at ?p = MainWait" "closer_at ?p = CloserWait" "workers_at ?p = [WorkerReceive]"
    "workChan ?p = []"
    by (simp_all only: empty_run_blocked process.simps)
  from d t e show ?thesis
    by blast
qed




end
